theory Spec2Isabelle
  imports Complex_Main
begin

section \<open>Numbers, strings and errors\<close>

text \<open>
  JavaScript numbers are modelled exactly. Quantities, stock, the karat and the paise
  figure reported by the gateway are integers; dates are integer milliseconds since the
  epoch. Prices, weights and every amount of money are rationals, since a cart price is
  taken from the request as it comes: sums, products and comparisons are those of the
  code, without the rounding error of IEEE doubles. The two rounding functions the code
  applies to money are modelled as such.
\<close>

text \<open>
  \<open>Math.round(x)\<close> is the integer nearest to \<open>x\<close>, a tie going up: \<open>round\<close> of the
  library, \<open>\<lfloor>x + 1/2\<rfloor>\<close>. \<open>Math.round(x * 100) / 100\<close> keeps two decimals that way.
  \<open>parseFloat(x.toFixed(2))\<close> keeps two decimals with a tie going away from zero: for a
  negative number \<open>toFixed\<close> formats the absolute value and puts the sign in front.
\<close>

definition round2 :: "rat \<Rightarrow> rat" where
  "round2 x = of_int (round (x * 100)) / 100"

definition toFixed2 :: "rat \<Rightarrow> rat" where
  "toFixed2 x = (if x < 0 then - (of_int (round (- x * 100)) / 100) else of_int (round (x * 100)) / 100)"

text \<open>Decimal rendering of a number inside a template string.\<close>

function show_digits :: "int \<Rightarrow> string" where
  "show_digits n =
     (if n < 10 then [char_of (48 + n)]
      else show_digits (n div 10) @ [char_of (48 + n mod 10)])"
  by pat_completeness auto
termination
  by (relation "measure nat") auto

declare show_digits.simps [simp del]

definition show_int :: "int \<Rightarrow> string" where
  "show_int i = (if i < 0 then ''-'' @ show_digits (- i) else show_digits i)"

definition show_nat :: "nat \<Rightarrow> string" where
  "show_nat n = show_digits (int n)"

text \<open>\<open>Array.prototype.join\<close>.\<close>

fun join :: "string \<Rightarrow> string list \<Rightarrow> string" where
  "join sep [] = []"
| "join sep [x] = x"
| "join sep (x # y # ys) = x @ sep @ join sep (y # ys)"

text \<open>\<open>String.prototype.includes\<close>: the needle occurs as a contiguous substring.\<close>

fun starts_with :: "string \<Rightarrow> string \<Rightarrow> bool" where
  "starts_with [] s = True"
| "starts_with (c # cs) [] = False"
| "starts_with (c # cs) (d # ds) = (c = d \<and> starts_with cs ds)"

fun str_includes :: "string \<Rightarrow> string \<Rightarrow> bool" where
  "str_includes [] needle = starts_with needle []"
| "str_includes (c # cs) needle = (starts_with needle (c # cs) \<or> str_includes cs needle)"

text \<open>
  Modelled from the spec: the error classes of \<open>../errors\<close> are not among the sources.
  The services throw \<open>BadRequestError\<close>, \<open>NotFoundError\<close> and \<open>InternalServerError\<close>,
  each with a message and the HTTP status code of its name (the catch clauses of
  order.service.ts test \<open>error.statusCode === 404\<close>); \<open>Error\<close> is the plain JavaScript
  error, which carries no status code.
\<close>

datatype error =
    BadRequestError string
  | NotFoundError string
  | InternalServerError string
  | Error string

fun statusCode :: "error \<Rightarrow> nat option" where
  "statusCode (BadRequestError m) = Some 400"
| "statusCode (NotFoundError m) = Some 404"
| "statusCode (InternalServerError m) = Some 500"
| "statusCode (Error m) = None"

fun message :: "error \<Rightarrow> string" where
  "message (BadRequestError m) = m"
| "message (NotFoundError m) = m"
| "message (InternalServerError m) = m"
| "message (Error m) = m"

section \<open>Catalog: products, variants and stock\<close>

record variant =
  karat :: int
  stoneType :: string
  sku :: string
  price :: rat
  stock :: int
  grossWeight :: rat
  isAvailable :: bool

record product =
  productId :: string
  name :: string
  variants :: "variant list"

text \<open>The product collection, keyed by the document id \<open>_id\<close>.\<close>

type_synonym products = "string \<rightharpoonup> product"

text \<open>\<open>ProductService.getProductById\<close> (product.service.ts, line 59).\<close>

definition getProductById :: "products \<Rightarrow> string \<Rightarrow> error + product" where
  "getProductById db ident =
     (if ident = [] then Inl (BadRequestError ''Product ID is required'')
      else case db ident of
             None \<Rightarrow> Inl (NotFoundError (''Product with id '' @ [CHR 39] @ ident @ [CHR 39] @ '' not found''))
           | Some p \<Rightarrow> Inr p)"

text \<open>
  \<open>ProductRepository.updateVariantStock\<close> (product.repository.ts, line 557):
  \<open>findOneAndUpdate({_id, 'variants.sku': sku}, {$set: {'variants.$.stock': newStock}})\<close>.
  The positional operator writes the first variant of the array whose sku matches; when
  no document matches, nothing is written and the result is \<open>null\<close>.
\<close>

fun setFirstStock :: "string \<Rightarrow> int \<Rightarrow> variant list \<Rightarrow> variant list" where
  "setFirstStock s n [] = []"
| "setFirstStock s n (v # vs) =
     (if sku v = s then v\<lparr>stock := n\<rparr> # vs else v # setFirstStock s n vs)"

definition updateVariantStock ::
  "products \<Rightarrow> string \<Rightarrow> string \<Rightarrow> int \<Rightarrow> product option \<times> products" where
  "updateVariantStock db pid s newStock =
     (case db pid of
        None \<Rightarrow> (None, db)
      | Some p \<Rightarrow>
          (case find (\<lambda>v. sku v = s) (variants p) of
             None \<Rightarrow> (None, db)
           | Some w \<Rightarrow>
               (let p' = p\<lparr>variants := setFirstStock s newStock (variants p)\<rparr>
                in (Some p', db(pid \<mapsto> p')))))"

text \<open>The \<open>{productId, sku, karat, quantity}\<close> objects handed to the stock functions.\<close>

record stock_item =
  si_productId :: string
  si_sku :: string
  si_karat :: int
  si_quantity :: int

text \<open>
  \<open>ProductService.reduceStockForOrder\<close> (product.service.ts, lines 512-566). The loop
  body is wrapped in a try/catch: a failing item pushes a message on \<open>errors\<close> and the
  loop goes on with the next item. After the loop a non-empty \<open>errors\<close> is thrown as one
  \<open>BadRequestError\<close>.
\<close>

fun reduceStockLoop :: "stock_item list \<Rightarrow> string list \<Rightarrow> products \<Rightarrow> string list \<times> products" where
  "reduceStockLoop [] errors db = (errors, db)"
| "reduceStockLoop (item # rest) errors db =
     (case getProductById db (si_productId item) of
        Inl e \<Rightarrow>
          reduceStockLoop rest
            (errors @ [''Failed to reduce stock for SKU '' @ si_sku item @ '': '' @ message e]) db
      | Inr product \<Rightarrow>
          (case find (\<lambda>v. sku v = si_sku item \<and> karat v = si_karat item) (variants product) of
             None \<Rightarrow>
               reduceStockLoop rest
                 (errors @ [''Variant not found for SKU: '' @ si_sku item @ '', Karat: ''
                            @ show_int (si_karat item)]) db
           | Some v \<Rightarrow>
               if stock v < si_quantity item then
                 reduceStockLoop rest
                   (errors @ [''Insufficient stock for SKU: '' @ si_sku item @ ''. Available: ''
                              @ show_int (stock v) @ '', Required: '' @ show_int (si_quantity item)]) db
               else
                 reduceStockLoop rest errors
                   (snd (updateVariantStock db (si_productId item) (si_sku item)
                           (stock v - si_quantity item)))))"

definition reduceStockForOrder :: "products \<Rightarrow> stock_item list \<Rightarrow> (error + unit) \<times> products" where
  "reduceStockForOrder db orderItems =
     (case reduceStockLoop orderItems [] db of
        (errors, db') \<Rightarrow>
          if length errors > 0
          then (Inl (BadRequestError (''Stock reduction failed: '' @ join ''; '' errors)), db')
          else (Inr (), db'))"

text \<open>
  \<open>ProductService.updateProductStockByVariant\<close> (product.service.ts, lines 573-614):
  a signed adjustment, positive to add and negative to reduce.
\<close>

definition updateProductStockByVariant ::
  "products \<Rightarrow> string \<Rightarrow> string \<Rightarrow> int \<Rightarrow> (error + product) \<times> products" where
  "updateProductStockByVariant db pid s quantity =
     (case getProductById db pid of
        Inl e \<Rightarrow> (Inl e, db)
      | Inr product \<Rightarrow>
          (case find (\<lambda>v. sku v = s) (variants product) of
             None \<Rightarrow> (Inl (NotFoundError (''Variant not found for SKU: '' @ s)), db)
           | Some v \<Rightarrow>
               (let newStock = stock v + quantity in
                if newStock < 0 then
                  (Inl (BadRequestError (''Cannot set negative stock. Current: '' @ show_int (stock v)
                                         @ '', Change: '' @ show_int quantity)), db)
                else
                  (case updateVariantStock db pid s newStock of
                     (None, db') \<Rightarrow> (Inl (InternalServerError ''Failed to update variant stock''), db')
                   | (Some updatedProduct, db') \<Rightarrow> (Inr updatedProduct, db')))))"

section \<open>Orders\<close>

datatype IOrderStatus =
  PENDING | PROCESSING | SHIPPED | DELIVERED | CANCELLED | FAILED | RETURNED

fun status_str :: "IOrderStatus \<Rightarrow> string" where
  "status_str PENDING = ''pending''"
| "status_str PROCESSING = ''processing''"
| "status_str SHIPPED = ''shipped''"
| "status_str DELIVERED = ''delivered''"
| "status_str CANCELLED = ''cancelled''"
| "status_str FAILED = ''failed''"
| "status_str RETURNED = ''returned''"

text \<open>
  An order item is the snapshot taken at checkout. Addresses, the selected colour and the
  selected size play no part in stock, status or money and are left out of the records.
\<close>

record order_item =
  oi_product :: string
  oi_productName :: string
  oi_productId :: string
  oi_productImage :: string
  oi_quantity :: int
  oi_karat :: int
  oi_stoneType :: string
  oi_sku :: string
  oi_selectedImage :: string
  oi_priceAtPurchase :: rat
  oi_grossWeight :: rat
  oi_itemTotal :: rat

record discount_snapshot =
  ds_code :: "string option"
  ds_discountId :: string
  ds_discountAmount :: "rat option"

record giftcard_snapshot =
  gs_code :: "string option"
  gs_giftCardId :: string
  gs_redeemedAmount :: "rat option"

record order =
  o_orderNumber :: string
  o_user :: string
  o_items :: "order_item list"
  o_subtotal :: rat
  o_appliedCoupon :: "discount_snapshot option"
  o_appliedVoucher :: "discount_snapshot option"
  o_appliedGiftCard :: "giftcard_snapshot option"
  o_totalDiscountAmount :: rat
  o_shippingCharge :: rat
  o_taxAmount :: rat
  o_total :: rat
  o_status :: IOrderStatus
  o_paymentMethod :: "string option"
  o_trackingNumber :: "string option"
  o_estimatedDeliveryDate :: "int option"
  o_actualDeliveryDate :: "int option"
  o_cancelledAt :: "int option"
  o_cancelReason :: "string option"
  o_returnedAt :: "int option"
  o_returnReason :: "string option"
  o_notes :: "string option"

text \<open>
  A collection whose documents are looked up by \<open>_id\<close> but also scanned by other fields
  is an association list from \<open>_id\<close> to the document. \<open>findByIdAndUpdate\<close> returns the
  updated document, or \<open>null\<close> when there is none.
\<close>

fun updateById :: "(string \<times> 'a) list \<Rightarrow> string \<Rightarrow> ('a \<Rightarrow> 'a) \<Rightarrow> (string \<times> 'a) list" where
  "updateById [] k f = []"
| "updateById ((k', d) # rest) k f =
     (if k' = k then (k', f d) # rest else (k', d) # updateById rest k f)"

definition findByIdAndUpdate ::
  "(string \<times> 'a) list \<Rightarrow> string \<Rightarrow> ('a \<Rightarrow> 'a) \<Rightarrow> 'a option \<times> (string \<times> 'a) list" where
  "findByIdAndUpdate coll k f =
     (case map_of coll k of
        None \<Rightarrow> (None, coll)
      | Some d \<Rightarrow> (Some (f d), updateById coll k f))"

type_synonym orders = "(string \<times> order) list"

text \<open>
  What the services read from outside the store: the clock (milliseconds), the value of
  \<open>Math.floor(Math.random() * 1000)\<close> and the \<open>_id\<close> the database gives to the next
  created document.
\<close>

record env =
  now :: int
  random :: nat
  newId :: string

text \<open>\<open>OrderRepository.updateOrderStatus\<close>, \<open>updateOrder\<close>, \<open>cancelOrder\<close>, \<open>returnOrder\<close>.\<close>

definition repo_updateOrderStatus :: "env \<Rightarrow> orders \<Rightarrow> string \<Rightarrow> IOrderStatus \<Rightarrow> order option \<times> orders" where
  "repo_updateOrderStatus e os orderId st =
     findByIdAndUpdate os orderId
       (\<lambda>d. if st = DELIVERED
            then d\<lparr>o_status := st, o_actualDeliveryDate := Some (now e)\<rparr>
            else d\<lparr>o_status := st\<rparr>)"

record UpdateOrderParams =
  up_status :: "IOrderStatus option"
  up_trackingNumber :: "string option"
  up_estimatedDeliveryDate :: "int option"
  up_cancelReason :: "string option"
  up_returnReason :: "string option"

definition no_update :: UpdateOrderParams where
  "no_update = \<lparr>up_status = None, up_trackingNumber = None, up_estimatedDeliveryDate = None,
                 up_cancelReason = None, up_returnReason = None\<rparr>"

definition set_opt :: "'a option \<Rightarrow> 'a option \<Rightarrow> 'a option" where
  "set_opt new old = (case new of None \<Rightarrow> old | Some v \<Rightarrow> Some v)"

definition repo_updateOrder :: "env \<Rightarrow> orders \<Rightarrow> string \<Rightarrow> UpdateOrderParams \<Rightarrow> order option \<times> orders" where
  "repo_updateOrder e os orderId u =
     findByIdAndUpdate os orderId
       (\<lambda>d. d\<lparr>o_status := (case up_status u of None \<Rightarrow> o_status d | Some st \<Rightarrow> st),
               o_trackingNumber := set_opt (up_trackingNumber u) (o_trackingNumber d),
               o_estimatedDeliveryDate := set_opt (up_estimatedDeliveryDate u) (o_estimatedDeliveryDate d),
               o_cancelReason := set_opt (up_cancelReason u) (o_cancelReason d),
               o_returnReason := set_opt (up_returnReason u) (o_returnReason d),
               o_cancelledAt :=
                 (if up_status u = Some CANCELLED \<and> up_cancelReason u \<noteq> None \<and> up_cancelReason u \<noteq> Some []
                  then Some (now e) else o_cancelledAt d),
               o_returnedAt :=
                 (if up_status u = Some RETURNED \<and> up_returnReason u \<noteq> None \<and> up_returnReason u \<noteq> Some []
                  then Some (now e) else o_returnedAt d),
               o_actualDeliveryDate :=
                 (if up_status u = Some DELIVERED then Some (now e) else o_actualDeliveryDate d)\<rparr>)"

definition repo_cancelOrder :: "env \<Rightarrow> orders \<Rightarrow> string \<Rightarrow> string \<Rightarrow> order option \<times> orders" where
  "repo_cancelOrder e os orderId reason =
     findByIdAndUpdate os orderId
       (\<lambda>d. d\<lparr>o_status := CANCELLED, o_cancelReason := Some reason, o_cancelledAt := Some (now e)\<rparr>)"

definition repo_returnOrder :: "env \<Rightarrow> orders \<Rightarrow> string \<Rightarrow> string \<Rightarrow> order option \<times> orders" where
  "repo_returnOrder e os orderId reason =
     findByIdAndUpdate os orderId
       (\<lambda>d. d\<lparr>o_status := RETURNED, o_returnReason := Some reason, o_returnedAt := Some (now e)\<rparr>)"

text \<open>\<open>OrderService.getOrderById\<close> (order.service.ts, line 206).\<close>

definition getOrderById :: "orders \<Rightarrow> string \<Rightarrow> error + order" where
  "getOrderById os orderId =
     (case map_of os orderId of
        None \<Rightarrow> Inl (NotFoundError ''Order not found'')
      | Some d \<Rightarrow> Inr d)"

text \<open>\<open>OrderService.validateStatusTransition\<close> (order.service.ts, lines 454-470).\<close>

fun validTransitions :: "IOrderStatus \<Rightarrow> IOrderStatus list" where
  "validTransitions PENDING = [PROCESSING, CANCELLED, FAILED]"
| "validTransitions PROCESSING = [SHIPPED, CANCELLED]"
| "validTransitions SHIPPED = [DELIVERED, CANCELLED]"
| "validTransitions DELIVERED = [RETURNED]"
| "validTransitions CANCELLED = []"
| "validTransitions FAILED = [PENDING]"
| "validTransitions RETURNED = []"

definition validateStatusTransition :: "IOrderStatus \<Rightarrow> IOrderStatus \<Rightarrow> error + unit" where
  "validateStatusTransition currentStatus newStatus =
     (if \<not> List.member (validTransitions currentStatus) newStatus
      then Inl (BadRequestError (''Invalid status transition from '' @ status_str currentStatus
                                 @ '' to '' @ status_str newStatus))
      else Inr ())"

text \<open>\<open>OrderService.canCancelOrder\<close> (order.service.ts, line 472).\<close>

definition canCancelOrder :: "IOrderStatus \<Rightarrow> bool" where
  "canCancelOrder st = List.member [PENDING, PROCESSING] st"

text \<open>
  \<open>OrderService.handleStatusUpdate\<close> (order.service.ts, lines 521-540): the switch has
  the two cases \<open>PROCESSING\<close> and \<open>SHIPPED\<close> and no default. Seven days are added to the
  clock as milliseconds.
\<close>

definition handleStatusUpdate :: "env \<Rightarrow> orders \<Rightarrow> string \<Rightarrow> order \<Rightarrow> IOrderStatus \<Rightarrow> orders" where
  "handleStatusUpdate e os orderId ord newStatus =
     (case newStatus of
        PROCESSING \<Rightarrow>
          snd (repo_updateOrder e os orderId
                 (no_update\<lparr>up_estimatedDeliveryDate := Some (now e + 7 * 86400000)\<rparr>))
      | SHIPPED \<Rightarrow>
          (if o_trackingNumber ord = None \<or> o_trackingNumber ord = Some []
           then snd (repo_updateOrder e os orderId
                       (no_update\<lparr>up_trackingNumber :=
                          Some (''TRK'' @ show_int (now e) @ show_nat (random e))\<rparr>))
           else os)
      | _ \<Rightarrow> os)"

text \<open>
  \<open>OrderService.restoreStock\<close> (order.service.ts, lines 433-452): the loop is inside one
  try/catch that only logs, so the first failing item ends the loop and the function
  returns normally.
\<close>

fun restoreStockLoop :: "order_item list \<Rightarrow> products \<Rightarrow> products" where
  "restoreStockLoop [] db = db"
| "restoreStockLoop (item # rest) db =
     (case updateProductStockByVariant db (oi_product item) (oi_sku item) (oi_quantity item) of
        (Inl err, db') \<Rightarrow> db'
      | (Inr updated, db') \<Rightarrow> restoreStockLoop rest db')"

definition restoreStock :: "products \<Rightarrow> order_item list \<Rightarrow> products" where
  "restoreStock db orderItems = restoreStockLoop orderItems db"

section \<open>Carts, discount instruments, payments and the store\<close>

record cart_item =
  ci_product :: string
  ci_quantity :: int
  ci_karat :: int
  ci_sku :: string
  ci_price :: rat
  ci_selectedImage :: string

text \<open>
  The three discount slots of a cart (cart.model.ts). Their fields are plain schema paths
  without \<open>required\<close>, so each one may be absent.
\<close>

record coupon_slot =
  cs_code :: "string option"
  cs_discountId :: "string option"
  cs_discountAmount :: "rat option"

record voucher_slot =
  vs_code :: "string option"
  vs_voucherId :: "string option"
  vs_name :: "string option"
  vs_amount :: "rat option"
  vs_discountAmount :: "rat option"

record giftcard_slot =
  gc_code :: "string option"
  gc_giftCardId :: "string option"
  gc_redeemedAmount :: "rat option"

record cart =
  c_items :: "cart_item list"
  c_appliedCoupon :: "coupon_slot option"
  c_appliedVoucher :: "voucher_slot option"
  c_appliedGiftCard :: "giftcard_slot option"

record voucher =
  vc_id :: string
  vc_name :: string
  vc_code :: string
  vc_amount :: rat
  vc_minimumValue :: rat
  vc_used :: bool
  vc_startFrom :: int
  vc_validUpto :: int
  vc_usedBy :: "string option"

datatype IGiftCardStatus = GC_PENDING | GC_ACTIVE | GC_REDEEMED | GC_EXPIRED | GC_CANCELLED

record giftcard =
  g_id :: string
  g_code :: string
  g_amount :: rat
  g_remainingAmount :: rat
  g_validUpto :: int
  g_status :: IGiftCardStatus
  g_isActive :: bool

text \<open>
  Modelled from the spec: the payment model and \<open>PaymentRepository\<close> are not among the
  sources (only their caller \<open>PaymentService\<close> is). The spec gives a payment an order
  reference, a user, an amount, a status in created, captured, failed, a gateway order
  id and a gateway payment id.
\<close>

datatype IPaymentStatus = CREATED | CAPTURED | PAYMENT_FAILED

record payment =
  p_orderId :: string
  p_user :: string
  p_amount :: rat
  p_status :: IPaymentStatus
  p_razorpayOrderId :: "string option"
  p_razorpayPaymentId :: "string option"

record state =
  products :: products
  carts :: "string \<rightharpoonup> cart"
  orders :: orders
  payments :: "(string \<times> payment) list"
  vouchers :: "voucher list"
  giftcards :: "giftcard list"
  usedDiscounts :: "(string \<times> string) list"

text \<open>
  The collaborators whose code is not among the sources, taken as parameters: the
  payment gateway (\<open>razorpayService\<close>), the user repository, the mail service and the
  coupon service (\<open>discountService\<close>). A successful \<open>markDiscountAsUsed\<close> is recorded in
  \<open>usedDiscounts\<close>.
\<close>

record razorpay_payment =
  rp_status :: string
  rp_amount :: int
  rp_method :: string

record collab =
  verifyPaymentSignature :: "string \<Rightarrow> string \<Rightarrow> string \<Rightarrow> bool"
  fetchPayment :: "string \<Rightarrow> error + razorpay_payment"
  getUserById :: "string \<Rightarrow> bool"
  sendEmail :: "string \<Rightarrow> error option"
  getDiscountByCode :: "string \<Rightarrow> error + bool"
  markDiscountAsUsed :: "string \<Rightarrow> string \<Rightarrow> error option"

section \<open>Order status changes, cancellation and return\<close>

text \<open>\<open>OrderService.updateOrderStatus\<close> (order.service.ts, lines 222-233).\<close>

definition updateOrderStatus :: "env \<Rightarrow> state \<Rightarrow> string \<Rightarrow> IOrderStatus \<Rightarrow> (error + order) \<times> state" where
  "updateOrderStatus e s orderId st =
     (case getOrderById (orders s) orderId of
        Inl err \<Rightarrow> (Inl err, s)
      | Inr ord \<Rightarrow>
          (case validateStatusTransition (o_status ord) st of
             Inl err \<Rightarrow> (Inl err, s)
           | Inr u \<Rightarrow>
               (case repo_updateOrderStatus e (orders s) orderId st of
                  (None, os') \<Rightarrow>
                    (Inl (InternalServerError ''Failed to update order status''), s\<lparr>orders := os'\<rparr>)
                | (Some updatedOrder, os') \<Rightarrow>
                    (Inr updatedOrder,
                     s\<lparr>orders := handleStatusUpdate e os' orderId updatedOrder st\<rparr>))))"

text \<open>
  \<open>OrderService.cancelOrder\<close> and \<open>returnOrder\<close> (order.service.ts, lines 245-283). The
  optional \<open>userId\<close> is checked only when it is given and not empty.
\<close>

definition not_owner :: "string option \<Rightarrow> order \<Rightarrow> bool" where
  "not_owner userId ord =
     (case userId of None \<Rightarrow> False | Some u \<Rightarrow> u \<noteq> [] \<and> o_user ord \<noteq> u)"

definition cancelOrder :: "env \<Rightarrow> state \<Rightarrow> string \<Rightarrow> string \<Rightarrow> string option \<Rightarrow> (error + order) \<times> state" where
  "cancelOrder e s orderId reason userId =
     (case getOrderById (orders s) orderId of
        Inl err \<Rightarrow> (Inl err, s)
      | Inr ord \<Rightarrow>
          if not_owner userId ord then (Inl (BadRequestError ''Order does not belong to user''), s)
          else if \<not> canCancelOrder (o_status ord) then
            (Inl (BadRequestError (''Cannot cancel order with status: '' @ status_str (o_status ord))), s)
          else
            (case repo_cancelOrder e (orders s) orderId reason of
               (None, os') \<Rightarrow> (Inl (InternalServerError ''Failed to cancel order''), s\<lparr>orders := os'\<rparr>)
             | (Some cancelledOrder, os') \<Rightarrow>
                 (Inr cancelledOrder,
                  s\<lparr>orders := os', products := restoreStock (products s) (o_items ord)\<rparr>)))"

definition returnOrder :: "env \<Rightarrow> state \<Rightarrow> string \<Rightarrow> string \<Rightarrow> string option \<Rightarrow> (error + order) \<times> state" where
  "returnOrder e s orderId reason userId =
     (case getOrderById (orders s) orderId of
        Inl err \<Rightarrow> (Inl err, s)
      | Inr ord \<Rightarrow>
          if not_owner userId ord then (Inl (BadRequestError ''Order does not belong to user''), s)
          else if o_status ord \<noteq> DELIVERED then
            (Inl (BadRequestError ''Only delivered orders can be returned''), s)
          else
            (case repo_returnOrder e (orders s) orderId reason of
               (None, os') \<Rightarrow> (Inl (InternalServerError ''Failed to return order''), s\<lparr>orders := os'\<rparr>)
             | (Some returnedOrder, os') \<Rightarrow>
                 (Inr returnedOrder,
                  s\<lparr>orders := os', products := restoreStock (products s) (o_items ord)\<rparr>)))"

text \<open>The stock of the first variant with the given sku of a product, as \<open>getVariantStock\<close> reads it.\<close>

definition stockOf :: "products \<Rightarrow> string \<Rightarrow> string \<Rightarrow> int option" where
  "stockOf db pid s =
     (case db pid of
        None \<Rightarrow> None
      | Some p \<Rightarrow> map_option stock (find (\<lambda>v. sku v = s) (variants p)))"

section \<open>Cart totals and gift-card application\<close>

record totals =
  t_subtotal :: rat
  t_discountAmount :: rat
  t_voucherAmount :: rat
  t_giftCardAmount :: rat
  t_total :: rat
  t_items :: nat

text \<open>\<open>x || 0\<close> on an optional number: an absent value and zero both give zero.\<close>

definition or0 :: "rat option \<Rightarrow> rat" where
  "or0 x = (case x of None \<Rightarrow> 0 | Some v \<Rightarrow> v)"

text \<open>\<open>CartService.calculateCartTotal\<close> (cart.service.ts, lines 383-415).\<close>

definition calculateCartTotal :: "cart \<Rightarrow> totals" where
  "calculateCartTotal c =
     (if length (c_items c) = 0 then
        \<lparr>t_subtotal = 0, t_discountAmount = 0, t_voucherAmount = 0, t_giftCardAmount = 0,
         t_total = 0, t_items = 0\<rparr>
      else
        (let subtotal = foldl (\<lambda>sum item. sum + ci_price item * of_int (ci_quantity item)) 0 (c_items c);
             discountAmount = (case c_appliedCoupon c of None \<Rightarrow> 0 | Some sl \<Rightarrow> or0 (cs_discountAmount sl));
             voucherAmount = (case c_appliedVoucher c of None \<Rightarrow> 0 | Some sl \<Rightarrow> or0 (vs_discountAmount sl));
             giftCardAmount = (case c_appliedGiftCard c of None \<Rightarrow> 0 | Some sl \<Rightarrow> or0 (gc_redeemedAmount sl));
             afterDiscounts = subtotal - discountAmount - voucherAmount;
             total = max 0 (afterDiscounts - giftCardAmount)
         in \<lparr>t_subtotal = subtotal, t_discountAmount = discountAmount, t_voucherAmount = voucherAmount,
             t_giftCardAmount = giftCardAmount, t_total = total, t_items = length (c_items c)\<rparr>))"

text \<open>
  \<open>CartService.getCart\<close> (cart.service.ts, line 163): the user's cart, created empty on
  first access.
\<close>

definition empty_cart :: cart where
  "empty_cart = \<lparr>c_items = [], c_appliedCoupon = None, c_appliedVoucher = None, c_appliedGiftCard = None\<rparr>"

definition getCart :: "state \<Rightarrow> string \<Rightarrow> cart \<times> state" where
  "getCart s userId =
     (case carts s userId of
        Some c \<Rightarrow> (c, s)
      | None \<Rightarrow> (empty_cart, s\<lparr>carts := (carts s)(userId \<mapsto> empty_cart)\<rparr>))"

text \<open>\<open>CartService.clearCartItems\<close> (cart.service.ts, line 417): only the items are emptied.\<close>

definition clearCartItems :: "state \<Rightarrow> string \<Rightarrow> state" where
  "clearCartItems s userId =
     (case getCart s userId of
        (c, s') \<Rightarrow>
          if length (c_items c) = 0 then s'
          else s'\<lparr>carts := (carts s')(userId \<mapsto> c\<lparr>c_items := []\<rparr>)\<rparr>)"

text \<open>
  Gift cards: \<open>getGiftCardByCode\<close> and \<open>validateGiftCardForRedemption\<close>
  (giftcard.service.ts). Here and below, a message that interpolates an amount of money
  is given without its figures.
\<close>

definition getGiftCardByCode :: "giftcard list \<Rightarrow> string \<Rightarrow> error + giftcard" where
  "getGiftCardByCode gs code =
     (case find (\<lambda>g. g_code g = code) gs of
        None \<Rightarrow> Inl (NotFoundError ''Gift card not found'')
      | Some g \<Rightarrow> Inr g)"

fun updateGiftCardStatus :: "giftcard list \<Rightarrow> string \<Rightarrow> IGiftCardStatus \<Rightarrow> giftcard list" where
  "updateGiftCardStatus [] ident st = []"
| "updateGiftCardStatus (g # gs) ident st =
     (if g_id g = ident then g\<lparr>g_status := st\<rparr> # gs else g # updateGiftCardStatus gs ident st)"

definition validateGiftCardForRedemption ::
  "env \<Rightarrow> giftcard list \<Rightarrow> string \<Rightarrow> rat \<Rightarrow> (error + giftcard) \<times> giftcard list" where
  "validateGiftCardForRedemption e gs code amount =
     (case find (\<lambda>g. g_code g = code) gs of
        None \<Rightarrow> (Inl (NotFoundError ''Gift card not found''), gs)
      | Some giftCard \<Rightarrow>
          if \<not> g_isActive giftCard then (Inl (BadRequestError ''Gift card is not active''), gs)
          else if g_status giftCard = GC_PENDING then
            (Inl (BadRequestError ''Gift card has not been activated yet''), gs)
          else if g_status giftCard = GC_EXPIRED then (Inl (BadRequestError ''Gift card has expired''), gs)
          else if g_status giftCard = GC_CANCELLED then
            (Inl (BadRequestError ''Gift card has been cancelled''), gs)
          else if g_status giftCard = GC_REDEEMED \<and> g_remainingAmount giftCard = 0 then
            (Inl (BadRequestError ''Gift card has been fully redeemed''), gs)
          else if now e > g_validUpto giftCard then
            (Inl (BadRequestError ''Gift card has expired''),
             updateGiftCardStatus gs (g_id giftCard) GC_EXPIRED)
          else if amount > g_remainingAmount giftCard then
            (Inl (BadRequestError ''Insufficient gift card balance''), gs)
          else (Inr giftCard, gs))"

text \<open>
  \<open>CartService.applyGiftCard\<close> (cart.service.ts, lines 757-781). The amount is compared
  with the cart total as it is before the new gift card is stored.
\<close>

definition applyGiftCard :: "env \<Rightarrow> state \<Rightarrow> string \<Rightarrow> string \<Rightarrow> rat \<Rightarrow> (error + cart) \<times> state" where
  "applyGiftCard e s userId code amount =
     (case getCart s userId of
        (c, s1) \<Rightarrow>
          if length (c_items c) = 0 then (Inl (BadRequestError ''Cart is empty''), s1)
          else
            (let currentTotal = t_total (calculateCartTotal c) in
             if amount > currentTotal then
               (Inl (BadRequestError ''Gift card amount cannot exceed cart total''), s1)
             else
               (case validateGiftCardForRedemption e (giftcards s1) code amount of
                  (Inl err, gs') \<Rightarrow> (Inl err, s1\<lparr>giftcards := gs'\<rparr>)
                | (Inr giftCard, gs') \<Rightarrow>
                    (let updatedCart =
                           c\<lparr>c_appliedGiftCard :=
                               Some \<lparr>gc_code = Some code, gc_giftCardId = Some (g_id giftCard),
                                     gc_redeemedAmount = Some amount\<rparr>\<rparr>
                     in (Inr updatedCart,
                         s1\<lparr>giftcards := gs', carts := (carts s1)(userId \<mapsto> updatedCart)\<rparr>)))))"

section \<open>Marking discounts as used\<close>

text \<open>Vouchers: \<open>getVoucherByCode\<close> and \<open>markVoucherAsUsed\<close> (voucher.service.ts).\<close>

definition getVoucherByCode :: "voucher list \<Rightarrow> string \<Rightarrow> error + voucher" where
  "getVoucherByCode vs code =
     (case find (\<lambda>v. vc_code v = code) vs of
        None \<Rightarrow> Inl (NotFoundError ''Voucher code not found'')
      | Some v \<Rightarrow> Inr v)"

text \<open>\<open>VoucherRepository.markAsUsed\<close>: \<open>findOneAndUpdate({code, used: false}, ...)\<close>.\<close>

fun markAsUsed :: "voucher list \<Rightarrow> string \<Rightarrow> string \<Rightarrow> voucher option \<times> voucher list" where
  "markAsUsed [] code userId = (None, [])"
| "markAsUsed (v # vs) code userId =
     (if vc_code v = code \<and> \<not> vc_used v
      then (let v' = v\<lparr>vc_used := True, vc_usedBy := Some userId\<rparr> in (Some v', v' # vs))
      else (case markAsUsed vs code userId of (r, vs') \<Rightarrow> (r, v # vs')))"

definition markVoucherAsUsed :: "env \<Rightarrow> voucher list \<Rightarrow> string \<Rightarrow> string \<Rightarrow> (error + voucher) \<times> voucher list" where
  "markVoucherAsUsed e vs code userId =
     (if find (\<lambda>v. vc_code v = code \<and> vc_usedBy v = Some userId) vs \<noteq> None
      then (Inl (BadRequestError ''You have already used this voucher''), vs)
      else
        (case getVoucherByCode vs code of
           Inl err \<Rightarrow> (Inl err, vs)
         | Inr v \<Rightarrow>
             if vc_used v then (Inl (BadRequestError ''Voucher has already been used''), vs)
             else if now e < vc_startFrom v then (Inl (BadRequestError ''Voucher is not yet valid''), vs)
             else if now e > vc_validUpto v then (Inl (BadRequestError ''Voucher has expired''), vs)
             else
               (case markAsUsed vs code userId of
                  (None, vs') \<Rightarrow> (Inl (InternalServerError ''Failed to mark voucher as used''), vs')
                | (Some updatedVoucher, vs') \<Rightarrow> (Inr updatedVoucher, vs'))))"

text \<open>
  The catch clause shared by the three \<open>safelyMark...\<close> functions (order.service.ts,
  lines 476-519): an error with status code 404, or whose message contains
  \<open>not found\<close>, is swallowed; any other error is thrown again.
\<close>

definition is_not_found :: "error \<Rightarrow> bool" where
  "is_not_found err = (statusCode err = Some 404 \<or> str_includes (message err) ''not found'')"

definition catch_not_found :: "error \<Rightarrow> error option" where
  "catch_not_found err = (if is_not_found err then None else Some err)"

definition safelyMarkDiscountAsUsed :: "collab \<Rightarrow> state \<Rightarrow> string \<Rightarrow> string \<Rightarrow> error option \<times> state" where
  "safelyMarkDiscountAsUsed c s code userId =
     (case getDiscountByCode c code of
        Inl err \<Rightarrow> (catch_not_found err, s)
      | Inr found \<Rightarrow>
          if found then
            (case markDiscountAsUsed c code userId of
               Some err \<Rightarrow> (catch_not_found err, s)
             | None \<Rightarrow> (None, s\<lparr>usedDiscounts := usedDiscounts s @ [(code, userId)]\<rparr>))
          else (None, s))"

definition safelyMarkVoucherAsUsed :: "env \<Rightarrow> state \<Rightarrow> string \<Rightarrow> string \<Rightarrow> error option \<times> state" where
  "safelyMarkVoucherAsUsed e s code userId =
     (case getVoucherByCode (vouchers s) code of
        Inl err \<Rightarrow> (catch_not_found err, s)
      | Inr v \<Rightarrow>
          (case markVoucherAsUsed e (vouchers s) code userId of
             (Inl err, vs') \<Rightarrow> (catch_not_found err, s\<lparr>vouchers := vs'\<rparr>)
           | (Inr updated, vs') \<Rightarrow> (None, s\<lparr>vouchers := vs'\<rparr>)))"

text \<open>
  \<open>safelyMarkGiftCardAsUsed\<close> (order.service.ts, lines 509-519): the try block holds the
  single statement \<open>const giftCard = await giftcardService.getGiftCardByCode(code)\<close>;
  the parameters \<open>userId\<close> and \<open>amount\<close> are not used.
\<close>

definition safelyMarkGiftCardAsUsed :: "state \<Rightarrow> string \<Rightarrow> string \<Rightarrow> rat \<Rightarrow> error option \<times> state" where
  "safelyMarkGiftCardAsUsed s code userId amount =
     (case getGiftCardByCode (giftcards s) code of
        Inl err \<Rightarrow> (catch_not_found err, s)
      | Inr giftCard \<Rightarrow> (None, s))"

section \<open>Applying a voucher to the cart\<close>

text \<open>\<open>VoucherService.validateVoucher\<close> and \<open>applyVoucher\<close> (voucher.service.ts, lines 151-195).\<close>

definition validateVoucher :: "env \<Rightarrow> voucher \<Rightarrow> rat \<Rightarrow> error + unit" where
  "validateVoucher e v subtotal =
     (if vc_used v then Inl (BadRequestError ''Voucher has already been used'')
      else if now e < vc_startFrom v then Inl (BadRequestError ''Voucher is not yet valid'')
      else if now e > vc_validUpto v then Inl (BadRequestError ''Voucher has expired'')
      else if subtotal < vc_minimumValue v then
        Inl (BadRequestError ''Minimum purchase required'')
      else if vc_amount v > subtotal then Inl (BadRequestError ''Voucher amount exceeds cart total'')
      else Inr ())"

definition voucher_applyVoucher :: "env \<Rightarrow> voucher list \<Rightarrow> string \<Rightarrow> rat \<Rightarrow> error + voucher_slot" where
  "voucher_applyVoucher e vs code subtotal =
     (case getVoucherByCode vs code of
        Inl err \<Rightarrow> Inl err
      | Inr v \<Rightarrow>
          (case validateVoucher e v subtotal of
             Inl err \<Rightarrow> Inl err
           | Inr ok \<Rightarrow>
               Inr \<lparr>vs_code = Some (vc_code v), vs_voucherId = Some (vc_id v),
                    vs_name = Some (vc_name v), vs_amount = Some (vc_amount v),
                    vs_discountAmount = Some (round2 (vc_amount v))\<rparr>))"

text \<open>\<open>CartService.applyVoucher\<close> (cart.service.ts, lines 358-381).\<close>

definition applyVoucher :: "env \<Rightarrow> state \<Rightarrow> string \<Rightarrow> string \<Rightarrow> (error + cart) \<times> state" where
  "applyVoucher e s userId code =
     (case getCart s userId of
        (c, s1) \<Rightarrow>
          if length (c_items c) = 0 then (Inl (BadRequestError ''Cart is empty''), s1)
          else
            (let subtotal = foldl (\<lambda>sum item. sum + ci_price item * of_int (ci_quantity item)) 0 (c_items c) in
             case voucher_applyVoucher e (vouchers s1) code subtotal of
               Inl err \<Rightarrow> (Inl err, s1)
             | Inr slot \<Rightarrow>
                 (let updatedCart = c\<lparr>c_appliedVoucher := Some slot\<rparr>
                  in (Inr updatedCart, s1\<lparr>carts := (carts s1)(userId \<mapsto> updatedCart)\<rparr>))))"

section \<open>Checkout\<close>

text \<open>Sequential evaluation of a fallible function over a list, stopping at the first error.\<close>

fun mapM :: "('a \<Rightarrow> error + 'b) \<Rightarrow> 'a list \<Rightarrow> error + 'b list" where
  "mapM f [] = Inr []"
| "mapM f (x # xs) =
     (case f x of
        Inl err \<Rightarrow> Inl err
      | Inr y \<Rightarrow> (case mapM f xs of Inl err \<Rightarrow> Inl err | Inr ys \<Rightarrow> Inr (y # ys)))"

text \<open>
  \<open>CartService.getCartWithDetails\<close> (cart.service.ts, lines 23-100). Of each detailed
  item the record keeps the fields that \<open>createOrder\<close> reads. The products are fetched
  with \<open>Promise.all\<close>; the model reports the error of the first failing item in list order.
\<close>

record detail_item =
  di_product_id :: string
  di_product_name :: string
  di_quantity :: int
  di_karat :: int
  di_sku :: string
  di_price :: rat
  di_selectedImage :: string

record cart_details =
  cd_cart :: cart
  cd_items :: "detail_item list"
  cd_totals :: totals

definition itemWithDetails :: "products \<Rightarrow> cart_item \<Rightarrow> error + detail_item" where
  "itemWithDetails db item =
     (case db (ci_product item) of
        None \<Rightarrow> Inl (NotFoundError (''Product not found for ID: '' @ ci_product item))
      | Some product \<Rightarrow>
          (case find (\<lambda>v. sku v = ci_sku item) (variants product) of
             None \<Rightarrow> Inl (NotFoundError (''Variant not found for SKU: '' @ ci_sku item))
           | Some v \<Rightarrow>
               Inr \<lparr>di_product_id = ci_product item, di_product_name = name product,
                    di_quantity = ci_quantity item, di_karat = ci_karat item, di_sku = ci_sku item,
                    di_price = ci_price item, di_selectedImage = ci_selectedImage item\<rparr>))"

definition getCartWithDetails :: "state \<Rightarrow> string \<Rightarrow> (error + cart_details) \<times> state" where
  "getCartWithDetails s userId =
     (case getCart s userId of
        (c, s1) \<Rightarrow>
          if length (c_items c) = 0 then
            (Inr \<lparr>cd_cart = c, cd_items = [],
                  cd_totals = \<lparr>t_subtotal = 0, t_discountAmount = 0, t_voucherAmount = 0,
                               t_giftCardAmount = 0, t_total = 0, t_items = 0\<rparr>\<rparr>, s1)
          else
            (case mapM (\<lambda>item. getProductById (products s1) (ci_product item)) (c_items c) of
               Inl err \<Rightarrow> (Inl err, s1)
             | Inr fetched \<Rightarrow>
                 (case mapM (itemWithDetails (products s1)) (c_items c) of
                    Inl err \<Rightarrow> (Inl err, s1)
                  | Inr itemsWithDetails \<Rightarrow>
                      (Inr \<lparr>cd_cart = c, cd_items = itemsWithDetails,
                            cd_totals = calculateCartTotal c\<rparr>, s1))))"

text \<open>\<open>OrderService.validateStockAvailability\<close> (order.service.ts, lines 388-416).\<close>

definition checkItemStock :: "products \<Rightarrow> detail_item \<Rightarrow> error + unit" where
  "checkItemStock db item =
     (case getProductById db (di_product_id item) of
        Inl err \<Rightarrow> Inl err
      | Inr product \<Rightarrow>
          (case find (\<lambda>v. karat v = di_karat item \<and> sku v = di_sku item) (variants product) of
             None \<Rightarrow> Inl (NotFoundError (''Variant not found for SKU: '' @ di_sku item))
           | Some v \<Rightarrow>
               if \<not> isAvailable v then
                 Inl (BadRequestError (''Variant '' @ di_sku item @ '' is not available for '' @ name product))
               else if stock v < di_quantity item then
                 Inl (BadRequestError (''Insufficient stock for '' @ name product @ '' (SKU: ''
                        @ di_sku item @ ''). Available: '' @ show_int (stock v) @ '', Required: ''
                        @ show_int (di_quantity item)))
               else Inr ()))"

definition validateStockAvailability :: "products \<Rightarrow> detail_item list \<Rightarrow> error + unit" where
  "validateStockAvailability db cartItems =
     (case mapM (checkItemStock db) cartItems of Inl err \<Rightarrow> Inl err | Inr oks \<Rightarrow> Inr ())"

text \<open>\<open>OrderService.generateOrderNumber\<close>, \<open>calculateShippingCharge\<close> and \<open>calculateTax\<close>.\<close>

definition padStart3 :: "string \<Rightarrow> string" where
  "padStart3 str = replicate (3 - length str) (CHR ''0'') @ str"

definition generateOrderNumber :: "env \<Rightarrow> string" where
  "generateOrderNumber e = ''ORD'' @ show_int (now e) @ padStart3 (show_nat (random e))"

definition calculateShippingCharge :: "rat \<Rightarrow> rat" where
  "calculateShippingCharge subtotal = 0"

definition calculateTax :: "rat \<Rightarrow> rat" where
  "calculateTax taxableAmount = 0"

text \<open>
  The snapshot of one cart line (order.service.ts, lines 85-130). The lines are mapped
  under \<open>Promise.all\<close>; \<open>createOrder\<close> below reports the error of the first failing line.
\<close>

definition orderItemOf :: "products \<Rightarrow> detail_item \<Rightarrow> error + order_item" where
  "orderItemOf db item =
     (case getProductById db (di_product_id item) of
        Inl err \<Rightarrow> Inl err
      | Inr product \<Rightarrow>
          (case find (\<lambda>v. karat v = di_karat item \<and> sku v = di_sku item) (variants product) of
             None \<Rightarrow> Inl (NotFoundError (''Variant not found for SKU: '' @ di_sku item))
           | Some v \<Rightarrow>
               Inr \<lparr>oi_product = di_product_id item, oi_productName = name product,
                    oi_productId = productId product, oi_productImage = di_selectedImage item,
                    oi_quantity = di_quantity item, oi_karat = di_karat item,
                    oi_stoneType = stoneType v, oi_sku = di_sku item,
                    oi_selectedImage = di_selectedImage item, oi_priceAtPurchase = di_price item,
                    oi_grossWeight = grossWeight v,
                    oi_itemTotal = di_price item * of_int (di_quantity item)\<rparr>))"

text \<open>
  The discount-marking block of \<open>createOrder\<close> (order.service.ts, lines 132-156): coupon,
  then voucher, then gift card, each only when its slot has a non-empty code. The first
  error that is thrown again ends the block; what was marked before stays marked.
\<close>

definition markCoupon :: "collab \<Rightarrow> state \<Rightarrow> cart \<Rightarrow> string \<Rightarrow> error option \<times> state" where
  "markCoupon cl s c userId =
     (case c_appliedCoupon c of
        None \<Rightarrow> (None, s)
      | Some sl \<Rightarrow>
          (case cs_code sl of
             None \<Rightarrow> (None, s)
           | Some code \<Rightarrow>
               if code \<noteq> [] then safelyMarkDiscountAsUsed cl s code userId else (None, s)))"

definition markVoucher :: "env \<Rightarrow> state \<Rightarrow> cart \<Rightarrow> string \<Rightarrow> error option \<times> state" where
  "markVoucher e s c userId =
     (case c_appliedVoucher c of
        None \<Rightarrow> (None, s)
      | Some sl \<Rightarrow>
          (case vs_code sl of
             None \<Rightarrow> (None, s)
           | Some code \<Rightarrow>
               if code \<noteq> [] then safelyMarkVoucherAsUsed e s code userId else (None, s)))"

definition markGiftCard :: "state \<Rightarrow> cart \<Rightarrow> string \<Rightarrow> error option \<times> state" where
  "markGiftCard s c userId =
     (case c_appliedGiftCard c of
        None \<Rightarrow> (None, s)
      | Some sl \<Rightarrow>
          (case gc_code sl of
             None \<Rightarrow> (None, s)
           | Some code \<Rightarrow>
               if code \<noteq> []
               then safelyMarkGiftCardAsUsed s code userId (or0 (gc_redeemedAmount sl))
               else (None, s)))"

definition markAppliedDiscounts :: "env \<Rightarrow> collab \<Rightarrow> state \<Rightarrow> cart \<Rightarrow> string \<Rightarrow> error option \<times> state" where
  "markAppliedDiscounts e cl s c userId =
     (case markCoupon cl s c userId of
        (Some err, s1) \<Rightarrow> (Some err, s1)
      | (None, s1) \<Rightarrow>
          (case markVoucher e s1 c userId of
             (Some err, s2) \<Rightarrow> (Some err, s2)
           | (None, s2) \<Rightarrow> markGiftCard s2 c userId))"

text \<open>
  \<open>OrderRepository.createOrder\<close>: \<open>this._model.create(params)\<close>. The order schema
  validates on create (required strings, \<open>min\<close> bounds, the karat and stone-type enums),
  the order number is unique, and the status defaults to pending. A failed validation or
  a duplicate order number throws a plain error.
\<close>

definition item_valid :: "order_item \<Rightarrow> bool" where
  "item_valid i =
     (oi_productName i \<noteq> [] \<and> oi_productId i \<noteq> [] \<and> oi_productImage i \<noteq> []
      \<and> oi_quantity i \<ge> 1 \<and> List.member [9, 14, 18] (oi_karat i)
      \<and> List.member [''regular_diamond'', ''gemstone'', ''colored_diamond''] (oi_stoneType i)
      \<and> oi_sku i \<noteq> [] \<and> oi_selectedImage i \<noteq> [] \<and> oi_priceAtPurchase i \<ge> 0
      \<and> oi_grossWeight i \<ge> 0 \<and> oi_itemTotal i \<ge> 0)"

definition order_valid :: "order \<Rightarrow> bool" where
  "order_valid d =
     (o_orderNumber d \<noteq> [] \<and> list_all item_valid (o_items d) \<and> o_subtotal d \<ge> 0
      \<and> o_totalDiscountAmount d \<ge> 0 \<and> o_shippingCharge d \<ge> 0 \<and> o_taxAmount d \<ge> 0
      \<and> o_total d \<ge> 0)"

definition repo_createOrder :: "env \<Rightarrow> orders \<Rightarrow> order \<Rightarrow> (error + string \<times> order) \<times> orders" where
  "repo_createOrder e os params =
     (if \<not> order_valid params then (Inl (Error ''Order validation failed''), os)
      else if List.member (map (\<lambda>kd. o_orderNumber (snd kd)) os) (o_orderNumber params) then
        (Inl (Error (''Order number '' @ o_orderNumber params @ '' already exists'')), os)
      else (Inr (newId e, params), os @ [(newId e, params)]))"

text \<open>\<open>OrderService.reserveStock\<close> (order.service.ts, lines 418-431).\<close>

definition reserveStock :: "products \<Rightarrow> detail_item list \<Rightarrow> (error + unit) \<times> products" where
  "reserveStock db cartItems =
     (let orderItems = map (\<lambda>item. \<lparr>si_productId = di_product_id item, si_sku = di_sku item,
                                       si_karat = di_karat item, si_quantity = di_quantity item\<rparr>) cartItems
      in case reduceStockForOrder db orderItems of
           (Inl err, db') \<Rightarrow> (Inl (BadRequestError (''Failed to reserve stock: '' @ message err)), db')
         | (Inr ok, db') \<Rightarrow> (Inr (), db'))"

text \<open>\<open>OrderService.createOrder\<close> (order.service.ts, lines 69-204).\<close>

record CreateOrderInput =
  in_userId :: string
  in_paymentMethod :: "string option"
  in_notes :: "string option"

record OrderSummary =
  sum_orderId :: string
  sum_orderNumber :: string
  sum_total :: rat
  sum_itemCount :: nat
  sum_status :: IOrderStatus

definition couponSnapshot :: "cart \<Rightarrow> discount_snapshot option" where
  "couponSnapshot c =
     (case c_appliedCoupon c of
        None \<Rightarrow> None
      | Some sl \<Rightarrow>
          (case cs_discountId sl of
             None \<Rightarrow> None
           | Some i \<Rightarrow> Some \<lparr>ds_code = cs_code sl, ds_discountId = i,
                               ds_discountAmount = cs_discountAmount sl\<rparr>))"

definition voucherSnapshot :: "cart \<Rightarrow> discount_snapshot option" where
  "voucherSnapshot c =
     (case c_appliedVoucher c of
        None \<Rightarrow> None
      | Some sl \<Rightarrow>
          (case vs_voucherId sl of
             None \<Rightarrow> None
           | Some i \<Rightarrow> Some \<lparr>ds_code = vs_code sl, ds_discountId = i,
                               ds_discountAmount = vs_discountAmount sl\<rparr>))"

definition giftCardSnapshot :: "cart \<Rightarrow> giftcard_snapshot option" where
  "giftCardSnapshot c =
     (case c_appliedGiftCard c of
        None \<Rightarrow> None
      | Some sl \<Rightarrow>
          (case gc_giftCardId sl of
             None \<Rightarrow> None
           | Some i \<Rightarrow> Some \<lparr>gs_code = gc_code sl, gs_giftCardId = i,
                               gs_redeemedAmount = gc_redeemedAmount sl\<rparr>))"

definition orderParams :: "env \<Rightarrow> CreateOrderInput \<Rightarrow> cart_details \<Rightarrow> order_item list \<Rightarrow> order" where
  "orderParams e input cartDetails orderItems =
     (let subtotal = t_subtotal (cd_totals cartDetails);
          totalDiscountAmount = t_discountAmount (cd_totals cartDetails);
          shippingCharge = calculateShippingCharge subtotal;
          taxAmount = calculateTax (subtotal - totalDiscountAmount + shippingCharge);
          total = toFixed2 (subtotal - totalDiscountAmount + shippingCharge + taxAmount)
      in \<lparr>o_orderNumber = generateOrderNumber e, o_user = in_userId input, o_items = orderItems,
          o_subtotal = subtotal,
          o_appliedCoupon = couponSnapshot (cd_cart cartDetails),
          o_appliedVoucher = voucherSnapshot (cd_cart cartDetails),
          o_appliedGiftCard = giftCardSnapshot (cd_cart cartDetails),
          o_totalDiscountAmount = totalDiscountAmount, o_shippingCharge = shippingCharge,
          o_taxAmount = taxAmount, o_total = total, o_status = PENDING,
          o_paymentMethod = in_paymentMethod input, o_trackingNumber = None,
          o_estimatedDeliveryDate = None, o_actualDeliveryDate = None, o_cancelledAt = None,
          o_cancelReason = None, o_returnedAt = None, o_returnReason = None,
          o_notes = in_notes input\<rparr>)"

definition createOrder :: "env \<Rightarrow> collab \<Rightarrow> state \<Rightarrow> CreateOrderInput \<Rightarrow> (error + OrderSummary) \<times> state" where
  "createOrder e cl s input =
     (case getCartWithDetails s (in_userId input) of
        (Inl err, s1) \<Rightarrow> (Inl err, s1)
      | (Inr cartDetails, s1) \<Rightarrow>
          if length (cd_items cartDetails) = 0 then (Inl (BadRequestError ''Cart is empty''), s1)
          else
            (case validateStockAvailability (products s1) (cd_items cartDetails) of
               Inl err \<Rightarrow> (Inl err, s1)
             | Inr ok \<Rightarrow>
                 (case mapM (orderItemOf (products s1)) (cd_items cartDetails) of
                    Inl err \<Rightarrow> (Inl err, s1)
                  | Inr orderItems \<Rightarrow>
                      (case markAppliedDiscounts e cl s1 (cd_cart cartDetails) (in_userId input) of
                         (Some err, s2) \<Rightarrow> (Inl err, s2)
                       | (None, s2) \<Rightarrow>
                           (case repo_createOrder e (orders s2)
                                   (orderParams e input cartDetails orderItems) of
                              (Inl err, os') \<Rightarrow> (Inl err, s2\<lparr>orders := os'\<rparr>)
                            | (Inr (oid, ord), os') \<Rightarrow>
                                (case reserveStock (products s2) (cd_items cartDetails) of
                                   (Inl err, db') \<Rightarrow> (Inl err, s2\<lparr>orders := os', products := db'\<rparr>)
                                 | (Inr ok2, db') \<Rightarrow>
                                     (Inr \<lparr>sum_orderId = oid, sum_orderNumber = o_orderNumber ord,
                                           sum_total = o_total ord, sum_itemCount = length (o_items ord),
                                           sum_status = o_status ord\<rparr>,
                                      clearCartItems (s2\<lparr>orders := os', products := db'\<rparr>)
                                        (in_userId input))))))))"

section \<open>Payment confirmation\<close>

text \<open>
  Modelled from the spec: \<open>PaymentRepository.getPaymentByRazorpayOrderId\<close> and
  \<open>markPaymentAsCaptured\<close> are not among the sources. The first looks the payment up by
  its gateway order id; the second sets the status to captured and stores the gateway
  payment id, returning the updated document or \<open>null\<close>.
\<close>

definition getPaymentByRazorpayOrderId :: "(string \<times> payment) list \<Rightarrow> string \<Rightarrow> (string \<times> payment) option" where
  "getPaymentByRazorpayOrderId ps razorpayOrderId =
     find (\<lambda>kp. p_razorpayOrderId (snd kp) = Some razorpayOrderId) ps"

definition capture :: "string \<Rightarrow> payment \<Rightarrow> payment" where
  "capture razorpayPaymentId p = p\<lparr>p_status := CAPTURED, p_razorpayPaymentId := Some razorpayPaymentId\<rparr>"

definition markPaymentAsCaptured ::
  "(string \<times> payment) list \<Rightarrow> string \<Rightarrow> string \<Rightarrow> payment option \<times> (string \<times> payment) list" where
  "markPaymentAsCaptured ps paymentId razorpayPaymentId =
     findByIdAndUpdate ps paymentId (capture razorpayPaymentId)"

text \<open>
  Step 9 of \<open>handleSuccessfulPayment\<close> (subcategory.repository.ts, lines 357-379): the
  stock reduction sits in its own try/catch, which logs and does not throw.
\<close>

definition reduceStockAfterPayment :: "products \<Rightarrow> order \<Rightarrow> products" where
  "reduceStockAfterPayment db orderDetails =
     (let orderItems = map (\<lambda>item. \<lparr>si_productId = oi_product item, si_sku = oi_sku item,
                                       si_karat = oi_karat item, si_quantity = oi_quantity item\<rparr>)
                           (o_items orderDetails)
      in if length orderItems > 0 then snd (reduceStockForOrder db orderItems) else db)"

text \<open>
  \<open>PaymentService.handleSuccessfulPayment\<close> (subcategory.repository.ts, lines 278-442).
  The stored amount is a number, so \<open>Number(payment.amount)\<close> is the amount itself and is
  never \<open>NaN\<close>; the gateway reports its amount in paise. The message of the amount
  mismatch is abridged to its paise figures. The outer try/catch logs and throws again.
\<close>

definition handleSuccessfulPayment ::
  "env \<Rightarrow> collab \<Rightarrow> state \<Rightarrow> string \<Rightarrow> string \<Rightarrow> string \<Rightarrow> (error + payment option) \<times> state" where
  "handleSuccessfulPayment e cl s razorpayOrderId razorpayPaymentId razorpaySignature =
     (case getPaymentByRazorpayOrderId (payments s) razorpayOrderId of
        None \<Rightarrow> (Inl (NotFoundError ''Payment not found''), s)
      | Some (paymentId, pay) \<Rightarrow>
          if \<not> verifyPaymentSignature cl razorpayOrderId razorpayPaymentId razorpaySignature then
            (Inl (BadRequestError ''Invalid payment signature''), s)
          else
            (case fetchPayment cl razorpayPaymentId of
               Inl err \<Rightarrow> (Inl err, s)
             | Inr razorpayPayment \<Rightarrow>
                 if rp_status razorpayPayment \<noteq> ''captured'' then
                   (Inl (BadRequestError (''Payment not captured. Status: '' @ rp_status razorpayPayment)), s)
                 else if p_amount pay \<le> 0 then
                   (Inl (BadRequestError ''Invalid payment amount in stored payment record''), s)
                 else if rp_amount razorpayPayment \<noteq> round (p_amount pay * 100) then
                   (Inl (BadRequestError (''Payment amount mismatch. Expected ''
                           @ show_int (round (p_amount pay * 100)) @ '' paise, received ''
                           @ show_int (rp_amount razorpayPayment) @ '' paise'')), s)
                 else
                   (case markPaymentAsCaptured (payments s) paymentId razorpayPaymentId of
                      (updatedPayment, ps') \<Rightarrow>
                        (case updateOrderStatus e (s\<lparr>payments := ps'\<rparr>) (p_orderId pay) PROCESSING of
                           (Inl err, s1) \<Rightarrow> (Inl err, s1)
                         | (Inr updatedOrder, s1) \<Rightarrow>
                             (case map_of (orders s1) (p_orderId pay) of
                                None \<Rightarrow> (Inl (InternalServerError ''Order not found''), s1)
                              | Some orderDetails \<Rightarrow>
                                  (let s2 = s1\<lparr>products := reduceStockAfterPayment (products s1) orderDetails\<rparr>
                                   in if \<not> getUserById cl (p_user pay) then
                                        (Inl (NotFoundError ''User not found''), s2)
                                      else
                                        (case sendEmail cl (p_user pay) of
                                           Some err \<Rightarrow> (Inl err, s2)
                                         | None \<Rightarrow>
                                             (Inr updatedPayment, clearCartItems s2 (p_user pay)))))))))"

section \<open>The transition graph as the specification words it\<close>

text \<open>
  The fixed directed graph of order states: pending to processing, cancelled or failed;
  processing to shipped or cancelled; shipped to delivered or cancelled; delivered to
  returned; failed to pending; cancelled and returned have no outgoing edge.
\<close>

definition transition_graph :: "(IOrderStatus \<times> IOrderStatus) list" where
  "transition_graph =
     [(PENDING, PROCESSING), (PENDING, CANCELLED), (PENDING, FAILED),
      (PROCESSING, SHIPPED), (PROCESSING, CANCELLED),
      (SHIPPED, DELIVERED), (SHIPPED, CANCELLED),
      (DELIVERED, RETURNED),
      (FAILED, PENDING)]"

section \<open>The discount amounts of a cart as the specification names them\<close>

text \<open>
  The coupon, voucher and gift-card amounts of a cart: the amount held in the slot, and
  zero when the slot or its amount is absent.
\<close>

definition couponAmount :: "cart \<Rightarrow> rat" where
  "couponAmount c = (case c_appliedCoupon c of None \<Rightarrow> 0 | Some sl \<Rightarrow> or0 (cs_discountAmount sl))"

definition voucherAmount :: "cart \<Rightarrow> rat" where
  "voucherAmount c = (case c_appliedVoucher c of None \<Rightarrow> 0 | Some sl \<Rightarrow> or0 (vs_discountAmount sl))"

definition giftCardAmount :: "cart \<Rightarrow> rat" where
  "giftCardAmount c = (case c_appliedGiftCard c of None \<Rightarrow> 0 | Some sl \<Rightarrow> or0 (gc_redeemedAmount sl))"

section \<open>The stock invariant\<close>

text \<open>Variant stock is never negative: every variant of every stored product has stock at least zero.\<close>

definition stock_nonneg :: "products \<Rightarrow> bool" where
  "stock_nonneg db = (\<forall>pid p. db pid = Some p \<longrightarrow> list_all (\<lambda>v. 0 \<le> stock v) (variants p))"

text \<open>The list that \<open>reserveStock\<close> hands to \<open>reduceStockForOrder\<close>.\<close>

definition stockItems :: "detail_item list \<Rightarrow> stock_item list" where
  "stockItems cartItems = map (\<lambda>item. \<lparr>si_productId = di_product_id item, si_sku = di_sku item,
                                       si_karat = di_karat item, si_quantity = di_quantity item\<rparr>) cartItems"

section \<open>The two halves of the payment confirmation\<close>

text \<open>
  The checks of steps 2 to 5 of \<open>handleSuccessfulPayment\<close>, and its steps 7 to 13, which
  run once the payment has been marked captured.
\<close>

definition confirmation_ok :: "collab \<Rightarrow> string \<Rightarrow> string \<Rightarrow> string \<Rightarrow> payment \<Rightarrow> bool" where
  "confirmation_ok cl razorpayOrderId razorpayPaymentId razorpaySignature pay =
     (verifyPaymentSignature cl razorpayOrderId razorpayPaymentId razorpaySignature
      \<and> (case fetchPayment cl razorpayPaymentId of
            Inl err \<Rightarrow> False
          | Inr rp \<Rightarrow> rp_status rp = ''captured'' \<and> rp_amount rp = round (p_amount pay * 100))
      \<and> 0 < p_amount pay)"

definition afterCapture :: "env \<Rightarrow> collab \<Rightarrow> state \<Rightarrow> payment option \<Rightarrow> payment \<Rightarrow> (error + payment option) \<times> state" where
  "afterCapture e cl s updatedPayment pay =
     (case updateOrderStatus e s (p_orderId pay) PROCESSING of
        (Inl err, s1) \<Rightarrow> (Inl err, s1)
      | (Inr updatedOrder, s1) \<Rightarrow>
          (case map_of (orders s1) (p_orderId pay) of
             None \<Rightarrow> (Inl (InternalServerError ''Order not found''), s1)
           | Some orderDetails \<Rightarrow>
               (let s2 = s1\<lparr>products := reduceStockAfterPayment (products s1) orderDetails\<rparr>
                in if \<not> getUserById cl (p_user pay) then (Inl (NotFoundError ''User not found''), s2)
                   else
                     (case sendEmail cl (p_user pay) of
                        Some err \<Rightarrow> (Inl err, s2)
                      | None \<Rightarrow> (Inr updatedPayment, clearCartItems s2 (p_user pay))))))"

section \<open>Example data\<close>

definition ex_env :: env where
  "ex_env = \<lparr>now = 1700000000000, random = 42, newId = ''o9''\<rparr>"

definition ex_variantA :: variant where
  "ex_variantA = \<lparr>karat = 18, stoneType = ''regular_diamond'', sku = ''A'', price = 100,
                   stock = 5, grossWeight = 3, isAvailable = True\<rparr>"

definition ex_variantB :: variant where
  "ex_variantB = \<lparr>karat = 14, stoneType = ''gemstone'', sku = ''B'', price = 50,
                   stock = 2, grossWeight = 2, isAvailable = True\<rparr>"

definition ex_products :: products where
  "ex_products =
     [''p1'' \<mapsto> \<lparr>productId = ''KK-1'', name = ''Ring'', variants = [ex_variantA]\<rparr>,
      ''p2'' \<mapsto> \<lparr>productId = ''KK-2'', name = ''Pendant'', variants = [ex_variantB]\<rparr>]"

definition ex_itemA :: order_item where
  "ex_itemA = \<lparr>oi_product = ''p1'', oi_productName = ''Ring'', oi_productId = ''KK-1'',
                oi_productImage = ''a.png'', oi_quantity = 2, oi_karat = 18,
                oi_stoneType = ''regular_diamond'', oi_sku = ''A'', oi_selectedImage = ''a.png'',
                oi_priceAtPurchase = 100, oi_grossWeight = 3, oi_itemTotal = 200\<rparr>"

definition ex_itemB :: order_item where
  "ex_itemB = \<lparr>oi_product = ''p2'', oi_productName = ''Pendant'', oi_productId = ''KK-2'',
                oi_productImage = ''b.png'', oi_quantity = 1, oi_karat = 14,
                oi_stoneType = ''gemstone'', oi_sku = ''B'', oi_selectedImage = ''b.png'',
                oi_priceAtPurchase = 50, oi_grossWeight = 2, oi_itemTotal = 50\<rparr>"

definition ex_order :: order where
  "ex_order =
     \<lparr>o_orderNumber = ''ORD1'', o_user = ''u1'', o_items = [ex_itemA, ex_itemB],
      o_subtotal = 250, o_appliedCoupon = None, o_appliedVoucher = None, o_appliedGiftCard = None,
      o_totalDiscountAmount = 0, o_shippingCharge = 0, o_taxAmount = 0, o_total = 250,
      o_status = PENDING, o_paymentMethod = Some ''razorpay'', o_trackingNumber = None,
      o_estimatedDeliveryDate = None, o_actualDeliveryDate = None, o_cancelledAt = None,
      o_cancelReason = None, o_returnedAt = None, o_returnReason = None, o_notes = None\<rparr>"

definition ex_payment :: payment where
  "ex_payment = \<lparr>p_orderId = ''o1'', p_user = ''u1'', p_amount = 250, p_status = CREATED,
                  p_razorpayOrderId = Some ''rzp_order_1'', p_razorpayPaymentId = None\<rparr>"

definition ex_state :: state where
  "ex_state =
     \<lparr>products = ex_products, carts = Map.empty, orders = [(''o1'', ex_order)],
      payments = [(''pay1'', ex_payment)],
      vouchers = [], giftcards = [], usedDiscounts = []\<rparr>"

definition ex_cartItemA :: cart_item where
  "ex_cartItemA = \<lparr>ci_product = ''p1'', ci_quantity = 2, ci_karat = 18, ci_sku = ''A'',
                    ci_price = 100, ci_selectedImage = ''a.png''\<rparr>"

definition ex_cartItemB :: cart_item where
  "ex_cartItemB = \<lparr>ci_product = ''p2'', ci_quantity = 1, ci_karat = 14, ci_sku = ''B'',
                    ci_price = 50, ci_selectedImage = ''b.png''\<rparr>"

definition ex_plain_cart :: cart where
  "ex_plain_cart = \<lparr>c_items = [ex_cartItemA, ex_cartItemB], c_appliedCoupon = None,
                     c_appliedVoucher = None, c_appliedGiftCard = None\<rparr>"

definition ex_cart :: cart where
  "ex_cart =
     \<lparr>c_items = [ex_cartItemA, ex_cartItemB],
      c_appliedCoupon = Some \<lparr>cs_code = Some ''SAVE20'', cs_discountId = Some ''d1'',
                               cs_discountAmount = Some 20\<rparr>,
      c_appliedVoucher = Some \<lparr>vs_code = Some ''V10'', vs_voucherId = Some ''v1'',
                                vs_name = Some ''Ten off'', vs_amount = Some 10,
                                vs_discountAmount = Some 10\<rparr>,
      c_appliedGiftCard = Some \<lparr>gc_code = Some ''GC1'', gc_giftCardId = Some ''g1'',
                                 gc_redeemedAmount = Some 50\<rparr>\<rparr>"

definition ex_vouchers :: "voucher list" where
  "ex_vouchers =
     [\<lparr>vc_id = ''v1'', vc_name = ''Ten off'', vc_code = ''V10'', vc_amount = 10,
       vc_minimumValue = 0, vc_used = False, vc_startFrom = 0, vc_validUpto = 1800000000000,
       vc_usedBy = None\<rparr>,
      \<lparr>vc_id = ''v2'', vc_name = ''Thirty off'', vc_code = ''V30'', vc_amount = 30,
       vc_minimumValue = 0, vc_used = False, vc_startFrom = 0, vc_validUpto = 1800000000000,
       vc_usedBy = None\<rparr>]"

definition ex_giftcards :: "giftcard list" where
  "ex_giftcards =
     [\<lparr>g_id = ''g1'', g_code = ''GC1'', g_amount = 500, g_remainingAmount = 500,
       g_validUpto = 1800000000000, g_status = GC_ACTIVE, g_isActive = True\<rparr>]"

definition ex_shop :: "cart \<Rightarrow> state" where
  "ex_shop c =
     \<lparr>products = ex_products, carts = [''u1'' \<mapsto> c], orders = [],
      payments = [], vouchers = ex_vouchers, giftcards = ex_giftcards, usedDiscounts = []\<rparr>"

definition ex_collab :: collab where
  "ex_collab =
     \<lparr>verifyPaymentSignature = (\<lambda>oid pid sg. sg = ''sig-ok''),
      fetchPayment = (\<lambda>pid. Inr \<lparr>rp_status = ''captured'', rp_amount = 25000, rp_method = ''upi''\<rparr>),
      getUserById = (\<lambda>u. u = ''u1''),
      sendEmail = (\<lambda>u. None),
      getDiscountByCode = (\<lambda>code. Inr (code = ''SAVE20'')),
      markDiscountAsUsed = (\<lambda>code u. None)\<rparr>"

definition ex_input :: CreateOrderInput where
  "ex_input = \<lparr>in_userId = ''u1'', in_paymentMethod = Some ''razorpay'', in_notes = None\<rparr>"

definition ex_summary :: OrderSummary where
  "ex_summary = \<lparr>sum_orderId = ''o9'', sum_orderNumber = ''ORD1700000000000042'',
                  sum_total = 230, sum_itemCount = 2, sum_status = PENDING\<rparr>"

definition ex_gift_then_voucher_cart :: cart where
  "ex_gift_then_voucher_cart =
     \<lparr>c_items = [ex_cartItemA, ex_cartItemB], c_appliedCoupon = None,
      c_appliedVoucher = Some \<lparr>vs_code = Some ''V30'', vs_voucherId = Some ''v2'',
                                vs_name = Some ''Thirty off'', vs_amount = Some 30,
                                vs_discountAmount = Some 30\<rparr>,
      c_appliedGiftCard = Some \<lparr>gc_code = Some ''GC1'', gc_giftCardId = Some ''g1'',
                                 gc_redeemedAmount = Some 250\<rparr>\<rparr>"

definition ex_detailA :: detail_item where
  "ex_detailA = \<lparr>di_product_id = ''p1'', di_product_name = ''Ring'', di_quantity = 2, di_karat = 18,
                  di_sku = ''A'', di_price = 100, di_selectedImage = ''a.png''\<rparr>"

definition ex_detailB3 :: detail_item where
  "ex_detailB3 = \<lparr>di_product_id = ''p2'', di_product_name = ''Pendant'', di_quantity = 3, di_karat = 14,
                   di_sku = ''B'', di_price = 50, di_selectedImage = ''b.png''\<rparr>"

definition ex_collab_mismatch :: collab where
  "ex_collab_mismatch =
     ex_collab\<lparr>fetchPayment :=
       (\<lambda>pid. Inr \<lparr>rp_status = ''captured'', rp_amount = 24000, rp_method = ''upi''\<rparr>)\<rparr>"



text \<open>
  The store after the example checkout of the plain cart, holding the payment record that
  \<open>initiatePayment\<close> stores for the new order (amount the order total, status created),
  and the store after its confirmation, which arrives a minute later.
\<close>

definition ex_env_later :: env where
  "ex_env_later = ex_env\<lparr>now := 1700000060000\<rparr>"

definition ex_plain_summary :: OrderSummary where
  "ex_plain_summary = \<lparr>sum_orderId = ''o9'', sum_orderNumber = ''ORD1700000000000042'',
                        sum_total = 250, sum_itemCount = 2, sum_status = PENDING\<rparr>"

definition ex_order_payment :: payment where
  "ex_order_payment = ex_payment\<lparr>p_orderId := ''o9''\<rparr>"

definition ex_paid_state :: state where
  "ex_paid_state =
     (snd (createOrder ex_env ex_collab (ex_shop ex_plain_cart) ex_input))
       \<lparr>payments := [(''pay1'', ex_order_payment)]\<rparr>"

definition ex_confirmed_state :: state where
  "ex_confirmed_state =
     snd (handleSuccessfulPayment ex_env_later ex_collab ex_paid_state ''rzp_order_1'' ''pay_1'' ''sig-ok'')"

section \<open>Verified properties\<close>

subsection \<open>Collections\<close>

lemma map_of_updateById:
  "map_of (updateById coll k f) k' = (if k' = k then map_option f (map_of coll k) else map_of coll k')"
  by (induction coll k f rule: updateById.induct) auto

lemma map_of_findByIdAndUpdate:
  "map_of (snd (findByIdAndUpdate coll k f)) k' =
     (if k' = k then map_option f (map_of coll k) else map_of coll k')"
  by (cases "map_of coll k") (simp_all add: findByIdAndUpdate_def map_of_updateById)

subsection \<open>Order status transitions\<close>

lemma validTransitions_graph:
  "b \<in> set (validTransitions a) \<longleftrightarrow> (a, b) \<in> set transition_graph"
  by (cases a; cases b) (simp_all add: transition_graph_def)

lemma validate_ok_iff:
  "validateStatusTransition a b = Inr () \<longleftrightarrow> (a, b) \<in> set transition_graph"
  by (simp add: validateStatusTransition_def validTransitions_graph)

lemma validate_rejects:
  "(a, b) \<notin> set transition_graph \<Longrightarrow> \<exists>m. validateStatusTransition a b = Inl (BadRequestError m)"
  by (simp add: validateStatusTransition_def validTransitions_graph)

lemma repo_updateOrder_status:
  assumes "up_status u = None"
  shows "map_option o_status (map_of (snd (repo_updateOrder e os k u)) k') = map_option o_status (map_of os k')"
proof (cases "k' = k")
  case True
  show ?thesis
    unfolding repo_updateOrder_def map_of_findByIdAndUpdate
    using True assms by (cases "map_of os k") simp_all
next
  case False
  then show ?thesis
    unfolding repo_updateOrder_def map_of_findByIdAndUpdate by simp
qed

lemma handleStatusUpdate_status:
  "map_option o_status (map_of (handleStatusUpdate e os k ord st) k') = map_option o_status (map_of os k')"
  by (cases st) (simp_all add: handleStatusUpdate_def repo_updateOrder_status no_update_def)

lemma repo_updateOrderStatus_found:
  "map_of os k = Some d \<Longrightarrow>
   \<exists>d'. repo_updateOrderStatus e os k st =
     (Some d', updateById os k (\<lambda>x. if st = DELIVERED
            then x\<lparr>o_status := st, o_actualDeliveryDate := Some (now e)\<rparr>
            else x\<lparr>o_status := st\<rparr>))"
  by (simp add: repo_updateOrderStatus_def findByIdAndUpdate_def)

lemma updateOrderStatus_accept:
  assumes "map_of (orders s) orderId = Some ord" and "(o_status ord, st) \<in> set transition_graph"
  shows "(\<exists>u. fst (updateOrderStatus e s orderId st) = Inr u) \<and>
         map_option o_status (map_of (orders (snd (updateOrderStatus e s orderId st))) orderId) = Some st"
proof -
  have v: "validateStatusTransition (o_status ord) st = Inr ()"
    using assms(2) by (simp add: validate_ok_iff)
  obtain d' where r: "repo_updateOrderStatus e (orders s) orderId st =
     (Some d', updateById (orders s) orderId (\<lambda>x. if st = DELIVERED
            then x\<lparr>o_status := st, o_actualDeliveryDate := Some (now e)\<rparr>
            else x\<lparr>o_status := st\<rparr>))"
    using repo_updateOrderStatus_found[OF assms(1)] by blast
  show ?thesis
    using assms(1)
    by (simp add: updateOrderStatus_def getOrderById_def v r handleStatusUpdate_status map_of_updateById)
qed

lemma updateOrderStatus_reject:
  assumes "map_of (orders s) orderId = Some ord" and "(o_status ord, st) \<notin> set transition_graph"
  shows "\<exists>m. updateOrderStatus e s orderId st = (Inl (BadRequestError m), s)"
proof -
  obtain m where "validateStatusTransition (o_status ord) st = Inl (BadRequestError m)"
    using validate_rejects[OF assms(2)] by blast
  then show ?thesis
    using assms(1) by (simp add: updateOrderStatus_def getOrderById_def)
qed

text \<open>
  C5. For an order in the store, \<open>updateOrderStatus\<close> succeeds exactly when the pair of
  the order's current status and the requested status is an edge of the transition
  graph. On an edge the stored order ends in the requested status; off the graph the
  call fails with a \<open>BadRequestError\<close> and the whole store, hence the order's status,
  is unchanged.
\<close>

theorem updateOrderStatus_follows_graph:
  assumes "map_of (orders s) orderId = Some ord"
  shows "((\<exists>u. fst (updateOrderStatus e s orderId st) = Inr u) \<longleftrightarrow> (o_status ord, st) \<in> set transition_graph)
       \<and> ((o_status ord, st) \<in> set transition_graph \<longrightarrow>
            map_option o_status (map_of (orders (snd (updateOrderStatus e s orderId st))) orderId) = Some st)
       \<and> ((o_status ord, st) \<notin> set transition_graph \<longrightarrow>
            (\<exists>m. updateOrderStatus e s orderId st = (Inl (BadRequestError m), s)))"
proof (cases "(o_status ord, st) \<in> set transition_graph")
  case True
  then show ?thesis using updateOrderStatus_accept[OF assms True, of e] by simp
next
  case False
  then show ?thesis using updateOrderStatus_reject[OF assms False, of e] by auto
qed

theorem updateOrderStatus_follows_graph_witness:
  "map_of (orders ex_state) ''o1'' = Some ex_order
   \<and> (\<exists>u. fst (updateOrderStatus ex_env ex_state ''o1'' PROCESSING) = Inr u)
   \<and> map_option o_status (map_of (orders (snd (updateOrderStatus ex_env ex_state ''o1'' PROCESSING))) ''o1'')
       = Some PROCESSING
   \<and> (\<exists>m. updateOrderStatus ex_env ex_state ''o1'' DELIVERED = (Inl (BadRequestError m), ex_state))"
proof -
  have h: "map_of (orders ex_state) ''o1'' = Some ex_order"
    by (simp add: ex_state_def)
  have e1: "(o_status ex_order, PROCESSING) \<in> set transition_graph"
    by (simp add: ex_order_def transition_graph_def)
  have e2: "(o_status ex_order, DELIVERED) \<notin> set transition_graph"
    by (simp add: ex_order_def transition_graph_def)
  show ?thesis
    using h e1 e2
      updateOrderStatus_follows_graph[OF h, of ex_env PROCESSING]
      updateOrderStatus_follows_graph[OF h, of ex_env DELIVERED]
    by simp
qed

subsection \<open>Cart totals\<close>

lemma foldl_sum: "foldl (\<lambda>sum item. sum + f item) a xs = a + sum_list (map f xs)" for a :: rat
  by (induction xs arbitrary: a) simp_all

text \<open>
  C3. For every cart the totals computation returns a subtotal equal to the sum over the
  items of unit price times quantity, and a total equal to the maximum of zero and the
  subtotal minus the returned coupon, voucher and gift-card amounts; the total is never
  negative. For a cart with items the returned amounts are the amounts held in the
  cart's three slots.
\<close>

theorem calculateCartTotal_correct:
  "t_subtotal (calculateCartTotal c) = (\<Sum>item\<leftarrow>c_items c. ci_price item * of_int (ci_quantity item))
   \<and> t_total (calculateCartTotal c) =
       max 0 (t_subtotal (calculateCartTotal c) - t_discountAmount (calculateCartTotal c)
              - t_voucherAmount (calculateCartTotal c) - t_giftCardAmount (calculateCartTotal c))
   \<and> 0 \<le> t_total (calculateCartTotal c)
   \<and> (c_items c \<noteq> [] \<longrightarrow>
        t_discountAmount (calculateCartTotal c) = couponAmount c
        \<and> t_voucherAmount (calculateCartTotal c) = voucherAmount c
        \<and> t_giftCardAmount (calculateCartTotal c) = giftCardAmount c)"
  by (simp add: calculateCartTotal_def Let_def foldl_sum couponAmount_def voucherAmount_def giftCardAmount_def)

theorem calculateCartTotal_correct_witness:
  "(\<Sum>item\<leftarrow>c_items ex_cart. ci_price item * of_int (ci_quantity item)) = 250
   \<and> c_items ex_cart \<noteq> []
   \<and> t_subtotal (calculateCartTotal ex_cart) = 250
   \<and> t_discountAmount (calculateCartTotal ex_cart) = 20
   \<and> t_voucherAmount (calculateCartTotal ex_cart) = 10
   \<and> t_giftCardAmount (calculateCartTotal ex_cart) = 50
   \<and> t_total (calculateCartTotal ex_cart) = 170"
proof -
  have s: "(\<Sum>item\<leftarrow>c_items ex_cart. ci_price item * of_int (ci_quantity item)) = 250"
    by (simp add: ex_cart_def ex_cartItemA_def ex_cartItemB_def)
  have n: "c_items ex_cart \<noteq> []" by (simp add: ex_cart_def)
  have a: "couponAmount ex_cart = 20" "voucherAmount ex_cart = 10" "giftCardAmount ex_cart = 50"
    by (simp_all add: ex_cart_def couponAmount_def voucherAmount_def giftCardAmount_def or0_def)
  show ?thesis
    using calculateCartTotal_correct[of ex_cart] s n a by simp
qed

subsection \<open>Checkout: what \<open>createOrder\<close> did when it stored an order\<close>

lemma getCart_cases:
  "getCart s u = (c, s1) \<Longrightarrow> c_items c \<noteq> [] \<Longrightarrow> s1 = s \<and> carts s u = Some c"
  by (auto simp: getCart_def empty_cart_def split: option.splits)


lemma safelyMarkDiscountAsUsed_frame:
  "safelyMarkDiscountAsUsed cl s code u = (r, s') \<Longrightarrow>
   orders s' = orders s \<and> products s' = products s \<and> carts s' = carts s
   \<and> giftcards s' = giftcards s \<and> payments s' = payments s \<and> vouchers s' = vouchers s"
  by (auto simp: safelyMarkDiscountAsUsed_def split: sum.splits option.splits if_splits)

lemma safelyMarkVoucherAsUsed_frame:
  "safelyMarkVoucherAsUsed e s code u = (r, s') \<Longrightarrow>
   orders s' = orders s \<and> products s' = products s \<and> carts s' = carts s
   \<and> giftcards s' = giftcards s \<and> payments s' = payments s \<and> usedDiscounts s' = usedDiscounts s"
  by (auto simp: safelyMarkVoucherAsUsed_def split: sum.splits option.splits if_splits prod.splits)

lemma safelyMarkGiftCardAsUsed_frame:
  "safelyMarkGiftCardAsUsed s code u amount = (r, s') \<Longrightarrow> s' = s"
  by (auto simp: safelyMarkGiftCardAsUsed_def split: sum.splits)

lemma markCoupon_frame:
  "markCoupon cl s c u = (r, s') \<Longrightarrow>
   orders s' = orders s \<and> products s' = products s \<and> carts s' = carts s
   \<and> giftcards s' = giftcards s \<and> payments s' = payments s \<and> vouchers s' = vouchers s"
  by (auto simp: markCoupon_def split: option.splits if_splits dest: safelyMarkDiscountAsUsed_frame)

lemma markVoucher_frame:
  "markVoucher e s c u = (r, s') \<Longrightarrow>
   orders s' = orders s \<and> products s' = products s \<and> carts s' = carts s
   \<and> giftcards s' = giftcards s \<and> payments s' = payments s \<and> usedDiscounts s' = usedDiscounts s"
  by (auto simp: markVoucher_def split: option.splits if_splits dest: safelyMarkVoucherAsUsed_frame)

lemma markGiftCard_frame:
  "markGiftCard s c u = (r, s') \<Longrightarrow> s' = s"
  by (auto simp: markGiftCard_def split: option.splits if_splits dest: safelyMarkGiftCardAsUsed_frame)

lemma markAppliedDiscounts_frame:
  assumes "markAppliedDiscounts e cl s c u = (r, s')"
  shows "orders s' = orders s \<and> products s' = products s \<and> carts s' = carts s
         \<and> giftcards s' = giftcards s \<and> payments s' = payments s"
proof -
  obtain r1 s1 where m1: "markCoupon cl s c u = (r1, s1)" by force
  obtain r2 s2 where m2: "markVoucher e s1 c u = (r2, s2)" by force
  obtain r3 s3 where m3: "markGiftCard s2 c u = (r3, s3)" by force
  have "s' = s1 \<or> s' = s2 \<or> s' = s3"
    using assms m1 m2 m3 by (auto simp: markAppliedDiscounts_def split: option.splits)
  then show ?thesis
    using markCoupon_frame[OF m1] markVoucher_frame[OF m2] markGiftCard_frame[OF m3] by auto
qed


lemma reserveStock_result:
  "reserveStock db items = (r, db') \<Longrightarrow> db' = snd (reserveStock db items)"
  by simp

lemma clearCartItems_frame:
  "orders (clearCartItems s u) = orders s \<and> products (clearCartItems s u) = products s
   \<and> giftcards (clearCartItems s u) = giftcards s \<and> payments (clearCartItems s u) = payments s
   \<and> vouchers (clearCartItems s u) = vouchers s \<and> usedDiscounts (clearCartItems s u) = usedDiscounts s"
  by (auto simp: clearCartItems_def getCart_def split: option.splits prod.splits)



subsection \<open>The order total\<close>





subsection \<open>The gift-card amount of a cart\<close>

text \<open>
  C9, as stated, fails: the totals computation takes the stored gift-card amount as it
  is. Applying gift card \<open>GC1\<close> for 250 to a cart with subtotal 250 and then voucher
  \<open>V30\<close> leaves a cart whose gift-card amount 250 exceeds the balance 220 that remains
  after the voucher.
\<close>

theorem giftCardAmount_uncapped_counterexample:
  "fst (applyVoucher ex_env (snd (applyGiftCard ex_env (ex_shop ex_plain_cart) ''u1'' ''GC1'' 250))
          ''u1'' ''V30'') = Inr ex_gift_then_voucher_cart
   \<and> t_giftCardAmount (calculateCartTotal ex_gift_then_voucher_cart) = 250
   \<and> max 0 (t_subtotal (calculateCartTotal ex_gift_then_voucher_cart)
            - t_discountAmount (calculateCartTotal ex_gift_then_voucher_cart)
            - t_voucherAmount (calculateCartTotal ex_gift_then_voucher_cart)) = 220
   \<and> \<not> t_giftCardAmount (calculateCartTotal ex_gift_then_voucher_cart)
        \<le> max 0 (t_subtotal (calculateCartTotal ex_gift_then_voucher_cart)
                   - t_discountAmount (calculateCartTotal ex_gift_then_voucher_cart)
                   - t_voucherAmount (calculateCartTotal ex_gift_then_voucher_cart))"
  by code_simp

text \<open>
  C9, amended. \<open>applyGiftCard\<close> accepts an amount only when it does not exceed the cart
  total of that moment, which is the maximum of zero and the subtotal minus the coupon,
  the voucher and the gift-card amount already in the cart. The totals computation of
  the updated cart uses exactly the accepted amount, and that amount is within the
  balance left after coupon and voucher when the gift-card amount already in the cart is
  not negative.
\<close>

theorem applyGiftCard_capped:
  assumes "fst (applyGiftCard e s userId code amount) = Inr c'"
  shows "\<exists>c. carts s userId = Some c
       \<and> amount \<le> t_total (calculateCartTotal c)
       \<and> amount \<le> max 0 (t_subtotal (calculateCartTotal c) - couponAmount c - voucherAmount c - giftCardAmount c)
       \<and> carts (snd (applyGiftCard e s userId code amount)) userId = Some c'
       \<and> giftCardAmount c' = amount
       \<and> t_giftCardAmount (calculateCartTotal c') = amount
       \<and> t_total (calculateCartTotal c') = max 0 (t_subtotal (calculateCartTotal c') - couponAmount c' - voucherAmount c' - amount)
       \<and> (0 \<le> giftCardAmount c \<longrightarrow>
            t_giftCardAmount (calculateCartTotal c')
              \<le> max 0 (t_subtotal (calculateCartTotal c') - t_discountAmount (calculateCartTotal c')
                         - t_voucherAmount (calculateCartTotal c')))"
proof -
  obtain c s1 where g: "getCart s userId = (c, s1)" by force
  have ne: "c_items c \<noteq> []"
    using assms g by (auto simp: applyGiftCard_def split: if_splits)
  have s1: "s1 = s" and cs: "carts s userId = Some c"
    using getCart_cases[OF g ne] by auto
  have le: "amount \<le> t_total (calculateCartTotal c)"
    using assms g ne by (auto simp: applyGiftCard_def Let_def split: if_splits)
  obtain r gs' where v: "validateGiftCardForRedemption e (giftcards s) code amount = (r, gs')" by force
  obtain gc where r: "r = Inr gc"
    using assms g ne s1 le v by (auto simp: applyGiftCard_def Let_def split: sum.splits)
  let ?c' = "c\<lparr>c_appliedGiftCard := Some \<lparr>gc_code = Some code, gc_giftCardId = Some (g_id gc),
                                     gc_redeemedAmount = Some amount\<rparr>\<rparr>"
  have res: "applyGiftCard e s userId code amount =
              (Inr ?c', s\<lparr>giftcards := gs', carts := (carts s)(userId \<mapsto> ?c')\<rparr>)"
    using g ne s1 le v r by (simp add: applyGiftCard_def Let_def)
  have c': "c' = ?c'" using assms res by simp
  have t: "t_total (calculateCartTotal c) =
             max 0 (t_subtotal (calculateCartTotal c) - couponAmount c - voucherAmount c - giftCardAmount c)"
    using ne by (simp add: calculateCartTotal_def Let_def couponAmount_def voucherAmount_def giftCardAmount_def)
  have ne': "c_items c' \<noteq> []" using ne c' by simp
  have g': "giftCardAmount c' = amount" using c' by (simp add: giftCardAmount_def or0_def)
  have t': "t_giftCardAmount (calculateCartTotal c') = giftCardAmount c'"
       "t_total (calculateCartTotal c') =
          max 0 (t_subtotal (calculateCartTotal c') - couponAmount c' - voucherAmount c' - giftCardAmount c')"
    using ne' by (simp_all add: calculateCartTotal_def Let_def couponAmount_def voucherAmount_def giftCardAmount_def)
  have same: "t_subtotal (calculateCartTotal c') = t_subtotal (calculateCartTotal c)"
       "t_discountAmount (calculateCartTotal c') = couponAmount c"
       "t_voucherAmount (calculateCartTotal c') = voucherAmount c"
    using ne c' by (simp_all add: calculateCartTotal_def Let_def couponAmount_def voucherAmount_def)
  have cap: "0 \<le> giftCardAmount c \<longrightarrow>
            t_giftCardAmount (calculateCartTotal c')
              \<le> max 0 (t_subtotal (calculateCartTotal c') - t_discountAmount (calculateCartTotal c')
                         - t_voucherAmount (calculateCartTotal c'))"
    using le t t'(1) g' same by (auto simp: max_def split: if_splits)
  show ?thesis
    using cs le t res c' g' t' cap by (intro exI[of _ c]) simp
qed

theorem applyGiftCard_capped_witness:
  "fst (applyGiftCard ex_env (ex_shop ex_cart) ''u1'' ''GC1'' 170)
     = Inr (ex_cart\<lparr>c_appliedGiftCard :=
              Some \<lparr>gc_code = Some ''GC1'', gc_giftCardId = Some ''g1'', gc_redeemedAmount = Some 170\<rparr>\<rparr>)
   \<and> (0::rat) \<le> giftCardAmount ex_cart
   \<and> (\<exists>c. carts (ex_shop ex_cart) ''u1'' = Some c
          \<and> 170 \<le> t_total (calculateCartTotal c)
          \<and> 170 \<le> max 0 (t_subtotal (calculateCartTotal c) - couponAmount c - voucherAmount c - giftCardAmount c))"
proof -
  have h: "fst (applyGiftCard ex_env (ex_shop ex_cart) ''u1'' ''GC1'' 170)
     = Inr (ex_cart\<lparr>c_appliedGiftCard :=
              Some \<lparr>gc_code = Some ''GC1'', gc_giftCardId = Some ''g1'', gc_redeemedAmount = Some 170\<rparr>\<rparr>)"
    by code_simp
  have g: "(0::rat) \<le> giftCardAmount ex_cart" by code_simp
  show ?thesis
    using h g applyGiftCard_capped[OF h] by blast
qed

subsection \<open>Discount consumption at checkout\<close>

lemma getCartWithDetails_frame:
  "getCartWithDetails s u = (r, s') \<Longrightarrow>
     giftcards s' = giftcards s \<and> products s' = products s \<and> orders s' = orders s
     \<and> payments s' = payments s \<and> vouchers s' = vouchers s \<and> usedDiscounts s' = usedDiscounts s"
  by (auto simp: getCartWithDetails_def getCart_def split: option.splits if_splits sum.splits)

lemma createOrder_leaves_giftcards:
  "giftcards (snd (createOrder e cl s input)) = giftcards s"
proof -
  let ?u = "in_userId input"
  obtain r1 s1 where g: "getCartWithDetails s ?u = (r1, s1)" by force
  have f1: "giftcards s1 = giftcards s" using getCartWithDetails_frame[OF g] by simp
  show ?thesis
  proof (cases r1)
    case (Inl err)
    then show ?thesis using g f1 by (simp add: createOrder_def)
  next
    case (Inr cd)
    obtain r2 s2 where m: "markAppliedDiscounts e cl s1 (cd_cart cd) ?u = (r2, s2)" by force
    have f2: "giftcards s2 = giftcards s1" using markAppliedDiscounts_frame[OF m] by simp
    show ?thesis
      using g Inr m f1 f2
      by (auto simp: createOrder_def clearCartItems_frame split: sum.splits option.splits prod.splits if_splits)
  qed
qed

text \<open>
  C8. The claim asks that every discount instrument applied to the cart is consumed at
  checkout, the gift-card redemption in particular. The code consumes the coupon and the
  voucher, and it never consumes the gift card: \<open>createOrder\<close> leaves the gift-card
  collection as it was (lemma \<open>createOrder_leaves_giftcards\<close>). On the example checkout,
  which succeeds with a gift card applied for 50, the coupon is recorded as used, the
  voucher is marked used, and the gift card still has its full balance of 500.
\<close>

theorem createOrder_giftcard_not_redeemed:
  "fst (createOrder ex_env ex_collab (ex_shop ex_cart) ex_input) = Inr ex_summary
   \<and> map g_remainingAmount (giftcards (ex_shop ex_cart)) = [500]
   \<and> giftCardAmount ex_cart = 50
   \<and> giftcards (snd (createOrder ex_env ex_collab (ex_shop ex_cart) ex_input)) = giftcards (ex_shop ex_cart)
   \<and> map g_remainingAmount (giftcards (snd (createOrder ex_env ex_collab (ex_shop ex_cart) ex_input))) = [500]
   \<and> map vc_used (vouchers (snd (createOrder ex_env ex_collab (ex_shop ex_cart) ex_input))) = [True, False]
   \<and> usedDiscounts (snd (createOrder ex_env ex_collab (ex_shop ex_cart) ex_input)) = [(''SAVE20'', ''u1'')]"
  by code_simp

subsection \<open>Stock release on cancellation\<close>

lemma updateOrderStatus_leaves_products:
  "products (snd (updateOrderStatus e s orderId st)) = products s"
  by (auto simp: updateOrderStatus_def split: sum.splits prod.splits option.splits)

text \<open>
  C6. The claim asks that every transition into cancelled or returned releases the stock
  of every order item. \<open>cancelOrder\<close> and \<open>returnOrder\<close> do so, and \<open>updateOrderStatus\<close>
  does not: it never changes the product collection (lemma
  \<open>updateOrderStatus_leaves_products\<close>). On the example order of two units of sku A and
  one of sku B, \<open>updateOrderStatus\<close> to cancelled leaves the stock at 5 and 2, where
  \<open>cancelOrder\<close> on the same store gives 7 and 3.
\<close>

theorem updateOrderStatus_cancel_keeps_stock:
  "map_option o_status (map_of (orders ex_state) ''o1'') = Some PENDING
   \<and> map_option o_status (map_of (orders (snd (updateOrderStatus ex_env ex_state ''o1'' CANCELLED))) ''o1'')
       = Some CANCELLED
   \<and> stockOf (products ex_state) ''p1'' ''A'' = Some 5
   \<and> stockOf (products ex_state) ''p2'' ''B'' = Some 2
   \<and> stockOf (products (snd (updateOrderStatus ex_env ex_state ''o1'' CANCELLED))) ''p1'' ''A'' = Some 5
   \<and> stockOf (products (snd (updateOrderStatus ex_env ex_state ''o1'' CANCELLED))) ''p2'' ''B'' = Some 2
   \<and> stockOf (products (snd (cancelOrder ex_env ex_state ''o1'' ''changed my mind'' (Some ''u1'')))) ''p1'' ''A'' = Some 7
   \<and> stockOf (products (snd (cancelOrder ex_env ex_state ''o1'' ''changed my mind'' (Some ''u1'')))) ''p2'' ''B'' = Some 3"
  by code_simp

subsection \<open>Stock never becomes negative\<close>

lemma setFirstStock_nonneg:
  "list_all (\<lambda>v. 0 \<le> stock v) vs \<Longrightarrow> 0 \<le> n \<Longrightarrow> list_all (\<lambda>v. 0 \<le> stock v) (setFirstStock s n vs)"
  by (induction vs) simp_all

lemma updateVariantStock_nonneg:
  "stock_nonneg db \<Longrightarrow> 0 \<le> n \<Longrightarrow> stock_nonneg (snd (updateVariantStock db pid s n))"
  by (auto simp: updateVariantStock_def stock_nonneg_def Let_def setFirstStock_nonneg split: option.splits)

lemma reduceStockLoop_nonneg:
  "stock_nonneg db \<Longrightarrow> stock_nonneg (snd (reduceStockLoop items errs db))"
proof (induction items arbitrary: errs db)
  case Nil
  then show ?case by simp
next
  case (Cons item rest)
  show ?case
  proof (cases "getProductById db (si_productId item)")
    case (Inl e)
    then show ?thesis using Cons by simp
  next
    case (Inr p)
    show ?thesis
    proof (cases "find (\<lambda>v. sku v = si_sku item \<and> karat v = si_karat item) (variants p)")
      case None
      then show ?thesis using Inr Cons by simp
    next
      case (Some v)
      show ?thesis
      proof (cases "stock v < si_quantity item")
        case True
        then show ?thesis using Inr Some Cons by simp
      next
        case False
        then have "0 \<le> stock v - si_quantity item" by simp
        then have "stock_nonneg (snd (updateVariantStock db (si_productId item) (si_sku item) (stock v - si_quantity item)))"
          using Cons.prems updateVariantStock_nonneg by blast
        then show ?thesis using Inr Some False Cons.IH by simp
      qed
    qed
  qed
qed

lemma reduceStockForOrder_snd:
  "snd (reduceStockForOrder db items) = snd (reduceStockLoop items [] db)"
  by (simp add: reduceStockForOrder_def split: prod.splits)

lemma reserveStock_snd:
  "snd (reserveStock db cartItems) =
     snd (reduceStockForOrder db (map (\<lambda>item. \<lparr>si_productId = di_product_id item, si_sku = di_sku item,
                                       si_karat = di_karat item, si_quantity = di_quantity item\<rparr>) cartItems))"
  by (simp add: reserveStock_def Let_def split: prod.splits sum.splits)

lemma updateProductStockByVariant_nonneg:
  assumes "stock_nonneg db"
  shows "stock_nonneg (snd (updateProductStockByVariant db pid s q))"
proof (cases "getProductById db pid")
  case (Inl e)
  then show ?thesis using assms by (simp add: updateProductStockByVariant_def)
next
  case (Inr p)
  show ?thesis
  proof (cases "find (\<lambda>v. sku v = s) (variants p)")
    case None
    then show ?thesis using Inr assms by (simp add: updateProductStockByVariant_def)
  next
    case (Some v)
    show ?thesis
    proof (cases "stock v + q < 0")
      case True
      then show ?thesis using Inr Some assms by (simp add: updateProductStockByVariant_def)
    next
      case False
      then have "stock_nonneg (snd (updateVariantStock db pid s (stock v + q)))"
        using assms updateVariantStock_nonneg by simp
      then show ?thesis
        using Inr Some False
        by (cases "updateVariantStock db pid s (stock v + q)")
           (auto simp: updateProductStockByVariant_def Let_def split: option.splits)
    qed
  qed
qed

lemma restoreStockLoop_nonneg:
  "stock_nonneg db \<Longrightarrow> stock_nonneg (restoreStockLoop items db)"
proof (induction items arbitrary: db)
  case Nil
  then show ?case by simp
next
  case (Cons item rest)
  obtain r db' where u: "updateProductStockByVariant db (oi_product item) (oi_sku item) (oi_quantity item) = (r, db')"
    by force
  have n: "stock_nonneg db'"
    using updateProductStockByVariant_nonneg[OF Cons.prems, of "oi_product item" "oi_sku item" "oi_quantity item"] u
    by simp
  show ?case using u n Cons.IH by (cases r) simp_all
qed

lemma adjustment_rejected:
  assumes "pid \<noteq> []" "db pid = Some p" "find (\<lambda>v. sku v = s) (variants p) = Some v" "stock v + q < 0"
  shows "\<exists>m. updateProductStockByVariant db pid s q = (Inl (BadRequestError m), db)"
  using assms by (simp add: updateProductStockByVariant_def getProductById_def)

lemma reduction_rejected:
  assumes "si_productId item \<noteq> []" "db (si_productId item) = Some p"
    "find (\<lambda>v. sku v = si_sku item \<and> karat v = si_karat item) (variants p) = Some v"
    "stock v < si_quantity item"
  shows "\<exists>m. reduceStockForOrder db [item] = (Inl (BadRequestError m), db)"
  using assms by (simp add: reduceStockForOrder_def getProductById_def)

text \<open>
  C4. If no variant has negative stock, then none has after a stock reduction for an
  order, after the reservation of a checkout, after the restore of a cancellation or
  return, or after a signed adjustment. A signed adjustment that would make the stock
  negative fails with a \<open>BadRequestError\<close> and leaves the products unchanged, and so does
  the reduction of an item whose variant has less stock than the requested quantity: a
  decrement happens only under the guard that the stock is at least the quantity.
\<close>

theorem stock_never_negative:
  assumes "stock_nonneg db"
  shows "stock_nonneg (snd (reduceStockForOrder db items))
       \<and> stock_nonneg (snd (reserveStock db cartItems))
       \<and> stock_nonneg (restoreStock db orderItems)
       \<and> stock_nonneg (snd (updateProductStockByVariant db pid s q))
       \<and> (\<forall>p v. pid \<noteq> [] \<and> db pid = Some p \<and> find (\<lambda>v. sku v = s) (variants p) = Some v
                \<and> stock v + q < 0 \<longrightarrow>
              (\<exists>m. updateProductStockByVariant db pid s q = (Inl (BadRequestError m), db)))
       \<and> (\<forall>p v. si_productId item \<noteq> [] \<and> db (si_productId item) = Some p
                \<and> find (\<lambda>v. sku v = si_sku item \<and> karat v = si_karat item) (variants p) = Some v
                \<and> stock v < si_quantity item \<longrightarrow>
              (\<exists>m. reduceStockForOrder db [item] = (Inl (BadRequestError m), db)))"
  using assms
  by (auto simp: reduceStockForOrder_snd reserveStock_snd reduceStockLoop_nonneg restoreStock_def
        restoreStockLoop_nonneg updateProductStockByVariant_nonneg
      intro: adjustment_rejected reduction_rejected)

theorem stock_never_negative_witness:
  "stock_nonneg ex_products
   \<and> stock_nonneg (snd (reserveStock ex_products [ex_detailA, ex_detailB3]))
   \<and> stock_nonneg (snd (updateProductStockByVariant ex_products ''p2'' ''B'' (- 3)))
   \<and> (\<exists>m. updateProductStockByVariant ex_products ''p2'' ''B'' (- 3) = (Inl (BadRequestError m), ex_products))"
proof -
  have h: "stock_nonneg ex_products"
    by (simp add: stock_nonneg_def ex_products_def ex_variantA_def ex_variantB_def)
  have p: "''p2'' \<noteq> [] \<and> ex_products ''p2'' = Some \<lparr>productId = ''KK-2'', name = ''Pendant'', variants = [ex_variantB]\<rparr>
        \<and> find (\<lambda>v. sku v = ''B'') (variants \<lparr>productId = ''KK-2'', name = ''Pendant'', variants = [ex_variantB]\<rparr>) = Some ex_variantB
        \<and> stock ex_variantB + (- 3) < 0"
    by (simp add: ex_products_def ex_variantB_def)
  show ?thesis
    using h p stock_never_negative[OF h, where cartItems = "[ex_detailA, ex_detailB3]"
                 and pid = "''p2''" and s = "''B''" and q = "- 3"]
    by blast
qed

subsection \<open>A failed reservation keeps the reservations already made\<close>

lemma reduceStockLoop_append:
  "reduceStockLoop (xs @ ys) errs db =
     (case reduceStockLoop xs errs db of (errs', db') \<Rightarrow> reduceStockLoop ys errs' db')"
  by (induction xs arbitrary: errs db) (simp_all split: sum.splits option.splits)

lemma reduceStockLoop_errs:
  "\<exists>new. fst (reduceStockLoop xs errs db) = errs @ new
        \<and> reduceStockLoop xs errs db = (errs @ new, snd (reduceStockLoop xs [] db))
        \<and> fst (reduceStockLoop xs [] db) = new"
proof (induction xs arbitrary: errs db)
  case Nil
  then show ?case by simp
next
  case (Cons item rest)
  show ?case
  proof (cases "getProductById db (si_productId item)")
    case (Inl e)
    let ?m = "''Failed to reduce stock for SKU '' @ si_sku item @ '': '' @ message e"
    from Cons[of "errs @ [?m]" db] obtain n1 where
      a: "reduceStockLoop rest (errs @ [?m]) db = ((errs @ [?m]) @ n1, snd (reduceStockLoop rest [] db))"
         "fst (reduceStockLoop rest [] db) = n1" by blast
    from Cons[of "[?m]" db] obtain n2 where
      b: "reduceStockLoop rest [?m] db = ([?m] @ n2, snd (reduceStockLoop rest [] db))"
         "fst (reduceStockLoop rest [] db) = n2" by blast
    show ?thesis using Inl a b by (intro exI[of _ "?m # n1"]) simp
  next
    case (Inr p)
    show ?thesis
    proof (cases "find (\<lambda>v. sku v = si_sku item \<and> karat v = si_karat item) (variants p)")
      case None
      let ?m = "''Variant not found for SKU: '' @ si_sku item @ '', Karat: '' @ show_int (si_karat item)"
      from Cons[of "errs @ [?m]" db] obtain n1 where
        a: "reduceStockLoop rest (errs @ [?m]) db = ((errs @ [?m]) @ n1, snd (reduceStockLoop rest [] db))"
           "fst (reduceStockLoop rest [] db) = n1" by blast
      from Cons[of "[?m]" db] obtain n2 where
        b: "reduceStockLoop rest [?m] db = ([?m] @ n2, snd (reduceStockLoop rest [] db))"
           "fst (reduceStockLoop rest [] db) = n2" by blast
      show ?thesis using Inr None a b by (intro exI[of _ "?m # n1"]) simp
    next
      case (Some v)
      show ?thesis
      proof (cases "stock v < si_quantity item")
        case True
        let ?m = "''Insufficient stock for SKU: '' @ si_sku item @ ''. Available: ''
                              @ show_int (stock v) @ '', Required: '' @ show_int (si_quantity item)"
        from Cons[of "errs @ [?m]" db] obtain n1 where
          a: "reduceStockLoop rest (errs @ [?m]) db = ((errs @ [?m]) @ n1, snd (reduceStockLoop rest [] db))"
             "fst (reduceStockLoop rest [] db) = n1" by blast
        from Cons[of "[?m]" db] obtain n2 where
          b: "reduceStockLoop rest [?m] db = ([?m] @ n2, snd (reduceStockLoop rest [] db))"
             "fst (reduceStockLoop rest [] db) = n2" by blast
        show ?thesis using Inr Some True a b by (intro exI[of _ "?m # n1"]) simp
      next
        case False
        let ?db = "snd (updateVariantStock db (si_productId item) (si_sku item) (stock v - si_quantity item))"
        from Cons[of errs ?db] obtain n1 where
          a: "reduceStockLoop rest errs ?db = (errs @ n1, snd (reduceStockLoop rest [] ?db))"
             "fst (reduceStockLoop rest [] ?db) = n1" by blast
        show ?thesis using Inr Some False a by (intro exI[of _ n1]) simp
      qed
    qed
  qed
qed

lemma reduceStockLoop_snd_indep:
  "snd (reduceStockLoop xs errs db) = snd (reduceStockLoop xs [] db)"
  using reduceStockLoop_errs[of xs errs db] by auto

lemma reduceStockLoop_fst:
  "fst (reduceStockLoop xs errs db) = errs @ fst (reduceStockLoop xs [] db)"
  using reduceStockLoop_errs[of xs errs db] by auto

lemma reduceStockLoop_single_failure:
  assumes "fst (reduceStockLoop [k] [] db) \<noteq> []"
  shows "snd (reduceStockLoop [k] [] db) = db"
  using assms by (auto split: sum.splits option.splits if_splits)

lemma reserveStock_alt:
  "reserveStock db cartItems =
     (if fst (reduceStockLoop (stockItems cartItems) [] db) \<noteq> []
      then (Inl (BadRequestError (''Failed to reserve stock: '' @ ''Stock reduction failed: ''
               @ join ''; '' (fst (reduceStockLoop (stockItems cartItems) [] db)))),
            snd (reduceStockLoop (stockItems cartItems) [] db))
      else (Inr (), snd (reduceStockLoop (stockItems cartItems) [] db)))"
  by (simp add: reserveStock_def reduceStockForOrder_def stockItems_def Let_def split: prod.splits)

lemma reduceStockLoop_failed_step:
  assumes "fst (reduceStockLoop ks [] d) \<noteq> []" and "snd (reduceStockLoop ks [] d) = d"
  shows "\<exists>e2. e2 \<noteq> [] \<and> reduceStockLoop ks e1 d = (e1 @ e2, d)"
  using reduceStockLoop_errs[of ks e1 d] assms by auto

text \<open>
  C1, as stated, fails: reserving two units of sku A (stock 5) and then three units of
  sku B (stock 2) fails at B with a \<open>BadRequestError\<close>, and the stock of A stays at 3;
  it is not released back to 5.
\<close>

theorem reserveStock_rollback_counterexample:
  "fst (reserveStock ex_products [ex_detailA, ex_detailB3])
     = Inl (BadRequestError ''Failed to reserve stock: Stock reduction failed: Insufficient stock for SKU: B. Available: 2, Required: 3'')
   \<and> stockOf ex_products ''p1'' ''A'' = Some 5
   \<and> stockOf (snd (reserveStock ex_products [ex_detailA, ex_detailB3])) ''p1'' ''A'' = Some 3"
  by code_simp

text \<open>
  C1, amended. When the reservation of an item fails after the items before it were
  processed, the whole reservation fails with a \<open>BadRequestError\<close>, raised after every
  item of the list has been attempted; the resulting stock is the stock after the items
  before the failing one with the items after it applied on top, so the reservations
  already made are kept and none is released.
\<close>

theorem reserveStock_no_rollback:
  assumes "fst (reserveStock (snd (reserveStock db xs)) [k]) = Inl err"
  shows "(\<exists>m. fst (reserveStock db (xs @ k # zs)) = Inl (BadRequestError m))
       \<and> snd (reserveStock db (xs @ k # zs)) = snd (reserveStock (snd (reserveStock db xs)) zs)"
proof -
  define db1 where "db1 = snd (reduceStockLoop (stockItems xs) [] db)"
  define e1 where "e1 = fst (reduceStockLoop (stockItems xs) [] db)"
  define k' where "k' = hd (stockItems [k])"
  have kk: "stockItems [k] = [k']" by (simp add: stockItems_def k'_def)
  have d1: "snd (reserveStock db xs) = db1" by (simp add: reserveStock_alt db1_def)
  have kf: "fst (reduceStockLoop [k'] [] db1) \<noteq> []"
    using assms unfolding d1 by (auto simp: reserveStock_alt kk split: if_splits)
  have kd: "snd (reduceStockLoop [k'] [] db1) = db1"
    using reduceStockLoop_single_failure[OF kf] .
  have sp: "stockItems (xs @ k # zs) = stockItems xs @ [k'] @ stockItems zs"
    using kk by (simp add: stockItems_def)
  have l1: "reduceStockLoop (stockItems xs) [] db = (e1, db1)"
    by (simp add: e1_def db1_def)
  obtain e2 where e2: "e2 \<noteq> []" and l2: "reduceStockLoop [k'] e1 db1 = (e1 @ e2, db1)"
    using reduceStockLoop_failed_step[OF kf kd, of e1] by blast
  have l3: "reduceStockLoop (stockItems (xs @ k # zs)) [] db = reduceStockLoop (stockItems zs) (e1 @ e2) db1"
    unfolding sp by (simp only: reduceStockLoop_append l1 l2 prod.case)
  have f: "fst (reduceStockLoop (stockItems (xs @ k # zs)) [] db) \<noteq> []"
    using reduceStockLoop_fst[of "stockItems zs" "e1 @ e2" db1] e2 unfolding l3 by simp
  have s: "snd (reduceStockLoop (stockItems (xs @ k # zs)) [] db) = snd (reduceStockLoop (stockItems zs) [] db1)"
    using reduceStockLoop_snd_indep[of "stockItems zs" "e1 @ e2" db1] unfolding l3 by simp
  have "\<exists>m. fst (reserveStock db (xs @ k # zs)) = Inl (BadRequestError m)"
    using f by (simp add: reserveStock_alt)
  moreover have "snd (reserveStock db (xs @ k # zs)) = snd (reserveStock (snd (reserveStock db xs)) zs)"
    unfolding d1 using s by (simp add: reserveStock_alt)
  ultimately show ?thesis by blast
qed

theorem reserveStock_no_rollback_witness:
  "fst (reserveStock (snd (reserveStock ex_products [ex_detailA])) [ex_detailB3])
     = Inl (BadRequestError ''Failed to reserve stock: Stock reduction failed: Insufficient stock for SKU: B. Available: 2, Required: 3'')
   \<and> (\<exists>m. fst (reserveStock ex_products ([ex_detailA] @ ex_detailB3 # [])) = Inl (BadRequestError m))
   \<and> snd (reserveStock ex_products ([ex_detailA] @ ex_detailB3 # []))
       = snd (reserveStock (snd (reserveStock ex_products [ex_detailA])) [])"
proof -
  have h: "fst (reserveStock (snd (reserveStock ex_products [ex_detailA])) [ex_detailB3])
     = Inl (BadRequestError ''Failed to reserve stock: Stock reduction failed: Insufficient stock for SKU: B. Available: 2, Required: 3'')"
    by code_simp
  show ?thesis
    using h reserveStock_no_rollback[OF h, of "[]"] by blast
qed

subsection \<open>Payment confirmation: verification\<close>

text \<open>
  C7. The confirmation handler receives only the gateway order id, the gateway payment
  id and the signature; the status and the amount it checks are those of
  \<open>fetchPayment\<close>. For a stored payment, when the signature is invalid, or the gateway
  does not report the payment as captured with an amount equal to the stored amount
  times 100 rounded to an integer, the handler returns an error and the store (payment, order, stock) is
  unchanged; an invalid signature gives the \<open>BadRequestError\<close> of step 2. So the
  payment collection changes only after a valid signature and a fetched payment that is
  captured with exactly the expected amount in minor units.
\<close>

theorem handleSuccessfulPayment_verifies:
  assumes "getPaymentByRazorpayOrderId (payments s) oid = Some (k, pay)"
  shows "(\<not> verifyPaymentSignature cl oid pid sg
          \<or> (\<forall>rp. fetchPayment cl pid = Inr rp \<longrightarrow>
                 rp_status rp \<noteq> ''captured'' \<or> rp_amount rp \<noteq> round (p_amount pay * 100))
        \<longrightarrow> (\<exists>err. fst (handleSuccessfulPayment e cl s oid pid sg) = Inl err)
            \<and> snd (handleSuccessfulPayment e cl s oid pid sg) = s)
       \<and> (\<not> verifyPaymentSignature cl oid pid sg \<longrightarrow>
            handleSuccessfulPayment e cl s oid pid sg = (Inl (BadRequestError ''Invalid payment signature''), s))
       \<and> (payments (snd (handleSuccessfulPayment e cl s oid pid sg)) \<noteq> payments s \<longrightarrow>
            verifyPaymentSignature cl oid pid sg
            \<and> (\<exists>rp. fetchPayment cl pid = Inr rp \<and> rp_status rp = ''captured''
                     \<and> rp_amount rp = round (p_amount pay * 100)))"
proof -
  have a: "\<not> verifyPaymentSignature cl oid pid sg \<Longrightarrow>
            handleSuccessfulPayment e cl s oid pid sg = (Inl (BadRequestError ''Invalid payment signature''), s)"
    using assms by (simp add: handleSuccessfulPayment_def)
  have b: "(\<forall>rp. fetchPayment cl pid = Inr rp \<longrightarrow>
                 rp_status rp \<noteq> ''captured'' \<or> rp_amount rp \<noteq> round (p_amount pay * 100)) \<Longrightarrow>
           (\<exists>err. fst (handleSuccessfulPayment e cl s oid pid sg) = Inl err)
            \<and> snd (handleSuccessfulPayment e cl s oid pid sg) = s"
    using assms by (cases "fetchPayment cl pid") (auto simp: handleSuccessfulPayment_def)
  show ?thesis using a b by (metis fst_conv snd_conv)
qed

theorem handleSuccessfulPayment_verifies_witness:
  "getPaymentByRazorpayOrderId (payments ex_state) ''rzp_order_1'' = Some (''pay1'', ex_payment)
   \<and> \<not> verifyPaymentSignature ex_collab ''rzp_order_1'' ''pay_1'' ''forged''
   \<and> handleSuccessfulPayment ex_env ex_collab ex_state ''rzp_order_1'' ''pay_1'' ''forged''
       = (Inl (BadRequestError ''Invalid payment signature''), ex_state)
   \<and> fetchPayment ex_collab_mismatch ''pay_1''
       = Inr \<lparr>rp_status = ''captured'', rp_amount = 24000, rp_method = ''upi''\<rparr>
   \<and> round (p_amount ex_payment * 100) = 25000
   \<and> (\<exists>err. fst (handleSuccessfulPayment ex_env ex_collab_mismatch ex_state ''rzp_order_1'' ''pay_1'' ''sig-ok'')
              = Inl err)
   \<and> snd (handleSuccessfulPayment ex_env ex_collab_mismatch ex_state ''rzp_order_1'' ''pay_1'' ''sig-ok'')
       = ex_state"
proof -
  have h: "getPaymentByRazorpayOrderId (payments ex_state) ''rzp_order_1'' = Some (''pay1'', ex_payment)"
    by code_simp
  have v: "\<not> verifyPaymentSignature ex_collab ''rzp_order_1'' ''pay_1'' ''forged''"
    by (simp add: ex_collab_def)
  have f: "fetchPayment ex_collab_mismatch ''pay_1''
       = Inr \<lparr>rp_status = ''captured'', rp_amount = 24000, rp_method = ''upi''\<rparr>"
    by (simp add: ex_collab_mismatch_def)
  have a: "round (p_amount ex_payment * 100) = 25000"
    by (simp add: ex_payment_def)
  have m: "\<forall>rp. fetchPayment ex_collab_mismatch ''pay_1'' = Inr rp \<longrightarrow>
             rp_status rp \<noteq> ''captured'' \<or> rp_amount rp \<noteq> round (p_amount ex_payment * 100)"
    using f a by auto
  show ?thesis
    using h v f a m
      handleSuccessfulPayment_verifies[OF h, where cl = ex_collab and pid = "''pay_1''"
        and sg = "''forged''" and e = ex_env]
      handleSuccessfulPayment_verifies[OF h, where cl = ex_collab_mismatch and pid = "''pay_1''"
        and sg = "''sig-ok''" and e = ex_env]
    by blast
qed

subsection \<open>Payment confirmation: a second delivery\<close>

lemma updateById_idem:
  "(\<And>x. f (f x) = f x) \<Longrightarrow> updateById (updateById coll k f) k f = updateById coll k f"
  by (induction coll k f rule: updateById.induct) auto

lemma find_updateById:
  assumes "find (\<lambda>kd. Q (snd kd)) ps = Some (k, d)" and "\<And>x. Q (f x) = Q x"
  shows "find (\<lambda>kd. Q (snd kd)) (updateById ps k f) = Some (k, d)
       \<or> find (\<lambda>kd. Q (snd kd)) (updateById ps k f) = Some (k, f d)"
  using assms by (induction ps k f rule: updateById.induct) (auto split: if_splits)

lemma updateById_absent:
  "map_of coll k = None \<Longrightarrow> updateById coll k f = coll"
  by (induction coll k f rule: updateById.induct) (auto split: if_splits)

lemma findByIdAndUpdate_snd:
  "snd (findByIdAndUpdate coll k f) = updateById coll k f"
  by (cases "map_of coll k") (simp_all add: findByIdAndUpdate_def updateById_absent)

lemma capture_idem: "capture pid (capture pid p) = capture pid p"
  by (simp add: capture_def)

lemma capture_fields:
  "p_razorpayOrderId (capture pid p) = p_razorpayOrderId p"
  "p_amount (capture pid p) = p_amount p"
  "p_orderId (capture pid p) = p_orderId p"
  "p_user (capture pid p) = p_user p"
  "p_status (capture pid p) = CAPTURED"
  by (simp_all add: capture_def)

lemma handle_not_found:
  "getPaymentByRazorpayOrderId (payments s) oid = None \<Longrightarrow>
   handleSuccessfulPayment e cl s oid pid sg = (Inl (NotFoundError ''Payment not found''), s)"
  by (simp add: handleSuccessfulPayment_def)

lemma handle_rejected:
  assumes "getPaymentByRazorpayOrderId (payments s) oid = Some (k, pay)"
    and "\<not> confirmation_ok cl oid pid sg pay"
  shows "snd (handleSuccessfulPayment e cl s oid pid sg) = s
       \<and> (\<exists>err. fst (handleSuccessfulPayment e cl s oid pid sg) = Inl err)"
  using assms
  by (cases "fetchPayment cl pid")
     (auto simp: handleSuccessfulPayment_def confirmation_ok_def not_less)

lemma handle_accepted:
  assumes "getPaymentByRazorpayOrderId (payments s) oid = Some (k, pay)"
    and "confirmation_ok cl oid pid sg pay"
  shows "handleSuccessfulPayment e cl s oid pid sg =
           afterCapture e cl (s\<lparr>payments := updateById (payments s) k (capture pid)\<rparr>)
             (fst (markPaymentAsCaptured (payments s) k pid)) pay"
proof -
  obtain rp where f: "fetchPayment cl pid = Inr rp" "rp_status rp = ''captured''"
      "rp_amount rp = round (p_amount pay * 100)"
    using assms(2) by (auto simp: confirmation_ok_def split: sum.splits)
  have v: "verifyPaymentSignature cl oid pid sg" "0 < p_amount pay"
    using assms(2) by (auto simp: confirmation_ok_def)
  define upd where "upd = fst (markPaymentAsCaptured (payments s) k pid)"
  have m: "markPaymentAsCaptured (payments s) k pid = (upd, updateById (payments s) k (capture pid))"
    using findByIdAndUpdate_snd[of "payments s" k "capture pid"]
    by (simp add: markPaymentAsCaptured_def prod_eq_iff upd_def)
  show ?thesis
    using assms(1) f v
    by (simp add: handleSuccessfulPayment_def afterCapture_def m not_le[symmetric])
qed

lemma updateOrderStatus_Inl:
  assumes "fst (updateOrderStatus e s orderId st) = Inl err"
  shows "snd (updateOrderStatus e s orderId st) = s"
proof (cases "map_of (orders s) orderId")
  case None
  then show ?thesis by (simp add: updateOrderStatus_def getOrderById_def)
next
  case (Some ord)
  show ?thesis
  proof (cases "(o_status ord, st) \<in> set transition_graph")
    case True
    then show ?thesis using updateOrderStatus_accept[OF Some True, of e] assms by auto
  next
    case False
    then show ?thesis using updateOrderStatus_reject[OF Some False, of e] by auto
  qed
qed

lemma repo_updateOrder_items:
  "map_option o_items (map_of (snd (repo_updateOrder e os k u)) k') = map_option o_items (map_of os k')"
  unfolding repo_updateOrder_def map_of_findByIdAndUpdate
  by (cases "map_of os k") simp_all

lemma handleStatusUpdate_items:
  "map_option o_items (map_of (handleStatusUpdate e os k ord st) k') = map_option o_items (map_of os k')"
  by (cases st) (simp_all add: handleStatusUpdate_def repo_updateOrder_items)

lemma updateOrderStatus_Inr:
  assumes "fst (updateOrderStatus e s orderId st) = Inr u"
  shows "\<exists>ord os'. map_of (orders s) orderId = Some ord
          \<and> (o_status ord, st) \<in> set transition_graph
          \<and> snd (updateOrderStatus e s orderId st) = s\<lparr>orders := os'\<rparr>
          \<and> map_option o_status (map_of os' orderId) = Some st
          \<and> map_option o_items (map_of os' orderId) = Some (o_items ord)"
proof (cases "map_of (orders s) orderId")
  case None
  then show ?thesis using assms by (simp add: updateOrderStatus_def getOrderById_def)
next
  case (Some ord)
  have g: "(o_status ord, st) \<in> set transition_graph"
  proof (rule ccontr)
    assume "(o_status ord, st) \<notin> set transition_graph"
    from updateOrderStatus_reject[OF Some this, of e] show False using assms by auto
  qed
  have v: "validateStatusTransition (o_status ord) st = Inr ()"
    using g by (simp add: validate_ok_iff)
  obtain d' where r: "repo_updateOrderStatus e (orders s) orderId st =
     (Some d', updateById (orders s) orderId (\<lambda>x. if st = DELIVERED
            then x\<lparr>o_status := st, o_actualDeliveryDate := Some (now e)\<rparr>
            else x\<lparr>o_status := st\<rparr>))"
    using repo_updateOrderStatus_found[OF Some] by blast
  let ?os1 = "updateById (orders s) orderId (\<lambda>x. if st = DELIVERED
            then x\<lparr>o_status := st, o_actualDeliveryDate := Some (now e)\<rparr>
            else x\<lparr>o_status := st\<rparr>)"
  let ?os' = "handleStatusUpdate e ?os1 orderId d' st"
  have res: "snd (updateOrderStatus e s orderId st) = s\<lparr>orders := ?os'\<rparr>"
    using Some v r by (simp add: updateOrderStatus_def getOrderById_def)
  have st: "map_option o_status (map_of ?os' orderId) = Some st"
    using Some by (simp add: handleStatusUpdate_status map_of_updateById)
  have it: "map_option o_items (map_of ?os' orderId) = Some (o_items ord)"
    using Some by (simp add: handleStatusUpdate_items map_of_updateById)
  show ?thesis using Some g res st it by blast
qed

lemma to_processing_from_pending:
  "(a, PROCESSING) \<in> set transition_graph \<Longrightarrow> a = PENDING"
  by (cases a) (simp_all add: transition_graph_def)

lemma reduceStockAfterPayment_items:
  "o_items a = o_items b \<Longrightarrow> reduceStockAfterPayment db a = reduceStockAfterPayment db b"
  by (simp add: reduceStockAfterPayment_def)

lemma clearCartItems_keeps:
  "payments (clearCartItems s u) = payments s" "orders (clearCartItems s u) = orders s"
  "products (clearCartItems s u) = products s"
  by (simp_all add: clearCartItems_frame)

text \<open>What steps 7 to 13 leave behind.\<close>

lemma afterCapture_cases:
  "(\<exists>err. afterCapture e cl s upd pay = (Inl err, s)
          \<and> updateOrderStatus e s (p_orderId pay) PROCESSING = (Inl err, s))
   \<or> (\<exists>ord. map_of (orders s) (p_orderId pay) = Some ord \<and> o_status ord = PENDING
          \<and> payments (snd (afterCapture e cl s upd pay)) = payments s
          \<and> map_option o_status (map_of (orders (snd (afterCapture e cl s upd pay))) (p_orderId pay))
              = Some PROCESSING
          \<and> products (snd (afterCapture e cl s upd pay)) = reduceStockAfterPayment (products s) ord)"
proof (cases "fst (updateOrderStatus e s (p_orderId pay) PROCESSING)")
  case (Inl err)
  have "updateOrderStatus e s (p_orderId pay) PROCESSING = (Inl err, s)"
    using Inl updateOrderStatus_Inl[OF Inl] by (simp add: prod_eq_iff)
  then show ?thesis by (simp add: afterCapture_def)
next
  case (Inr u)
  from updateOrderStatus_Inr[OF Inr] obtain ord os' where
    o: "map_of (orders s) (p_orderId pay) = Some ord"
       "(o_status ord, PROCESSING) \<in> set transition_graph"
       "snd (updateOrderStatus e s (p_orderId pay) PROCESSING) = s\<lparr>orders := os'\<rparr>"
       "map_option o_status (map_of os' (p_orderId pay)) = Some PROCESSING"
       "map_option o_items (map_of os' (p_orderId pay)) = Some (o_items ord)"
    by blast
  have u: "updateOrderStatus e s (p_orderId pay) PROCESSING = (Inr u, s\<lparr>orders := os'\<rparr>)"
    using Inr o(3) by (simp add: prod_eq_iff)
  obtain od where od: "map_of os' (p_orderId pay) = Some od" "o_items od = o_items ord"
    using o(4,5) by auto
  have rs: "reduceStockAfterPayment (products s) od = reduceStockAfterPayment (products s) ord"
    using od(2) by (rule reduceStockAfterPayment_items)
  have "payments (snd (afterCapture e cl s upd pay)) = payments s
      \<and> orders (snd (afterCapture e cl s upd pay)) = os'
      \<and> products (snd (afterCapture e cl s upd pay)) = reduceStockAfterPayment (products s) ord"
    using u od(1) rs
    by (auto simp: afterCapture_def Let_def clearCartItems_keeps split: option.splits)
  then show ?thesis
    using o(1,2,4) to_processing_from_pending by auto
qed

lemma find_in_map_of:
  "find P ps = Some (k, d) \<Longrightarrow> \<exists>d0. map_of ps k = Some d0"
  by (induction ps) (auto split: if_splits)

lemma lookup_after_capture:
  assumes "getPaymentByRazorpayOrderId ps oid = Some (k, pay)"
  shows "\<exists>pay'. getPaymentByRazorpayOrderId (updateById ps k (capture pid)) oid = Some (k, pay')
          \<and> p_amount pay' = p_amount pay \<and> p_orderId pay' = p_orderId pay \<and> p_user pay' = p_user pay"
proof -
  have "find (\<lambda>kd. (\<lambda>p. p_razorpayOrderId p = Some oid) (snd kd)) ps = Some (k, pay)"
    using assms by (simp add: getPaymentByRazorpayOrderId_def)
  from find_updateById[OF this, of "capture pid"]
  show ?thesis
    by (auto simp: getPaymentByRazorpayOrderId_def capture_fields)
qed

lemma confirmation_ok_amount:
  "p_amount pay' = p_amount pay \<Longrightarrow>
   confirmation_ok cl oid pid sg pay' = confirmation_ok cl oid pid sg pay"
  by (simp add: confirmation_ok_def split: sum.splits)

lemma afterCapture_same_order_user:
  "p_orderId pay' = p_orderId pay \<Longrightarrow> p_user pay' = p_user pay \<Longrightarrow>
   snd (afterCapture e cl s upd' pay') = snd (afterCapture e cl s upd pay)
   \<and> (\<forall>m. fst (afterCapture e cl s upd pay) = Inl m \<longrightarrow> fst (afterCapture e cl s upd' pay') = Inl m)"
  by (auto simp: afterCapture_def Let_def split: prod.splits sum.splits option.splits)

text \<open>The second delivery, on a store whose payment is already marked captured.\<close>

lemma handle_again:
  assumes l: "getPaymentByRazorpayOrderId ps oid = Some (k, pay)"
    and ok: "confirmation_ok cl oid pid sg pay"
    and p: "payments t = updateById ps k (capture pid)"
  shows "\<exists>upd'. snd (handleSuccessfulPayment e cl t oid pid sg) = snd (afterCapture e cl t upd' pay)
          \<and> (\<forall>m. fst (afterCapture e cl t upd' pay) = Inl m \<longrightarrow>
                 fst (handleSuccessfulPayment e cl t oid pid sg) = Inl m)"
proof -
  obtain pay' where l': "getPaymentByRazorpayOrderId (payments t) oid = Some (k, pay')"
      and f: "p_amount pay' = p_amount pay" "p_orderId pay' = p_orderId pay" "p_user pay' = p_user pay"
    using lookup_after_capture[OF l, of pid] p by auto
  have ok': "confirmation_ok cl oid pid sg pay'"
    using ok confirmation_ok_amount[OF f(1)] by simp
  have same: "t\<lparr>payments := updateById (payments t) k (capture pid)\<rparr> = t"
    by (simp add: p updateById_idem capture_idem)
  let ?upd = "fst (markPaymentAsCaptured (payments t) k pid)"
  have h: "handleSuccessfulPayment e cl t oid pid sg = afterCapture e cl t ?upd pay'"
    using handle_accepted[OF l' ok', of e] same by simp
  have "snd (afterCapture e cl t ?upd pay') = snd (afterCapture e cl t ?upd pay)"
    using afterCapture_same_order_user[OF f(2,3), of e cl t ?upd ?upd] by simp
  moreover have "\<forall>m. fst (afterCapture e cl t ?upd pay) = Inl m \<longrightarrow> fst (afterCapture e cl t ?upd pay') = Inl m"
    using afterCapture_same_order_user[OF f(2,3), of e cl t ?upd ?upd] by simp
  ultimately show ?thesis using h by (intro exI[of _ ?upd]) simp
qed

lemma afterCapture_processing:
  assumes "map_option o_status (map_of (orders t) (p_orderId pay)) = Some PROCESSING"
  shows "\<exists>m. afterCapture e cl t upd pay = (Inl (BadRequestError m), t)"
proof -
  obtain ord where o: "map_of (orders t) (p_orderId pay) = Some ord" "o_status ord = PROCESSING"
    using assms by auto
  have "(o_status ord, PROCESSING) \<notin> set transition_graph"
    using o(2) by (simp add: transition_graph_def)
  from updateOrderStatus_reject[OF o(1) this, of e]
  show ?thesis by (auto simp: afterCapture_def)
qed

lemma updateOrderStatus_Inl_any_env:
  assumes "fst (updateOrderStatus e s orderId st) = Inl err"
  shows "\<exists>err'. updateOrderStatus e' s orderId st = (Inl err', s)"
proof (cases "map_of (orders s) orderId")
  case None
  then show ?thesis by (simp add: updateOrderStatus_def getOrderById_def)
next
  case (Some ord)
  show ?thesis
  proof (cases "(o_status ord, st) \<in> set transition_graph")
    case True
    then show ?thesis using updateOrderStatus_accept[OF Some True, of e] assms by auto
  next
    case False
    then show ?thesis using updateOrderStatus_reject[OF Some False, of e'] by auto
  qed
qed

lemma handleSuccessfulPayment_second_delivery:
  "snd (handleSuccessfulPayment e' cl (snd (handleSuccessfulPayment e cl s oid pid sg)) oid pid sg)
     = snd (handleSuccessfulPayment e cl s oid pid sg)
   \<and> (\<forall>r. fst (handleSuccessfulPayment e cl s oid pid sg) = Inr r \<longrightarrow>
         (\<exists>m. fst (handleSuccessfulPayment e' cl (snd (handleSuccessfulPayment e cl s oid pid sg)) oid pid sg)
                = Inl (BadRequestError m)))"
  (is "?idem \<and> ?rej")
proof (cases "getPaymentByRazorpayOrderId (payments s) oid")
  case None
  then show ?thesis by (simp add: handle_not_found)
next
  case (Some kp)
  obtain k pay where l: "getPaymentByRazorpayOrderId (payments s) oid = Some (k, pay)"
    using Some by (cases kp) simp
  show ?thesis
  proof (cases "confirmation_ok cl oid pid sg pay")
    case False
    have u: "snd (handleSuccessfulPayment e cl s oid pid sg) = s"
        "\<exists>err. fst (handleSuccessfulPayment e cl s oid pid sg) = Inl err"
      using handle_rejected[OF l False, of e] by auto
    have "snd (handleSuccessfulPayment e' cl s oid pid sg) = s"
      using handle_rejected[OF l False, of e'] by auto
    then show ?thesis using u by auto
  next
    case True
    let ?s6 = "s\<lparr>payments := updateById (payments s) k (capture pid)\<rparr>"
    let ?upd = "fst (markPaymentAsCaptured (payments s) k pid)"
    have h: "handleSuccessfulPayment e cl s oid pid sg = afterCapture e cl ?s6 ?upd pay"
      using handle_accepted[OF l True] .
    let ?t = "snd (afterCapture e cl ?s6 ?upd pay)"
    from afterCapture_cases[of e cl ?s6 ?upd pay]
    show ?thesis
    proof
      assume "\<exists>err. afterCapture e cl ?s6 ?upd pay = (Inl err, ?s6)
          \<and> updateOrderStatus e ?s6 (p_orderId pay) PROCESSING = (Inl err, ?s6)"
      then obtain err where a: "afterCapture e cl ?s6 ?upd pay = (Inl err, ?s6)"
          and u: "fst (updateOrderStatus e ?s6 (p_orderId pay) PROCESSING) = Inl err" by auto
      obtain err' where u': "updateOrderStatus e' ?s6 (p_orderId pay) PROCESSING = (Inl err', ?s6)"
        using updateOrderStatus_Inl_any_env[OF u, of e'] by blast
      have p6: "payments ?s6 = updateById (payments s) k (capture pid)" by simp
      from handle_again[OF l True p6, of e'] obtain upd' where
        "snd (handleSuccessfulPayment e' cl ?s6 oid pid sg) = snd (afterCapture e' cl ?s6 upd' pay)" by blast
      moreover have "snd (afterCapture e' cl ?s6 upd' pay) = ?s6"
        using u' by (simp add: afterCapture_def)
      ultimately show ?thesis using h a by simp
    next
      assume "\<exists>ord. map_of (orders ?s6) (p_orderId pay) = Some ord \<and> o_status ord = PENDING
          \<and> payments ?t = payments ?s6
          \<and> map_option o_status (map_of (orders ?t) (p_orderId pay)) = Some PROCESSING
          \<and> products ?t = reduceStockAfterPayment (products ?s6) ord"
      then have b: "payments ?t = updateById (payments s) k (capture pid)"
          "map_option o_status (map_of (orders ?t) (p_orderId pay)) = Some PROCESSING"
        by auto
      from handle_again[OF l True b(1), of e'] obtain upd' where
        s2: "snd (handleSuccessfulPayment e' cl ?t oid pid sg) = snd (afterCapture e' cl ?t upd' pay)"
        and f2: "\<forall>m. fst (afterCapture e' cl ?t upd' pay) = Inl m \<longrightarrow>
                 fst (handleSuccessfulPayment e' cl ?t oid pid sg) = Inl m" by blast
      obtain m where rej: "afterCapture e' cl ?t upd' pay = (Inl (BadRequestError m), ?t)"
        using afterCapture_processing[OF b(2), of e' cl upd'] by blast
      have idem: "snd (handleSuccessfulPayment e' cl ?t oid pid sg) = ?t"
        using s2 rej by simp
      have err: "fst (handleSuccessfulPayment e' cl ?t oid pid sg) = Inl (BadRequestError m)"
        using f2 rej by simp
      have "?idem" using h idem by simp
      moreover have "?rej" using h err by auto
      ultimately show ?thesis by blast
    qed
  qed
qed

text \<open>
  C2. The claim asks that a gateway confirmation, also when it is delivered twice, results
  in exactly one stock decrement per order item. The second delivery indeed changes
  nothing (lemma \<open>handleSuccessfulPayment_second_delivery\<close>: the order is no longer
  pending, so the status update rejects it). But the first delivery decrements every item
  that the checkout has decremented already. For the example order of two units of sku A
  and one of sku B, the stock is 5 and 2 before checkout, 3 and 1 after checkout, and 1
  and 0 after the confirmation: two decrements per item.
\<close>

theorem confirmation_decrements_twice:
  "fst (createOrder ex_env ex_collab (ex_shop ex_plain_cart) ex_input) = Inr ex_plain_summary
   \<and> map (\<lambda>i. (oi_sku i, oi_quantity i)) (concat (map (\<lambda>kd. o_items (snd kd)) (orders ex_paid_state)))
       = [(''A'', 2), (''B'', 1)]
   \<and> stockOf (products (ex_shop ex_plain_cart)) ''p1'' ''A'' = Some 5
   \<and> stockOf (products (ex_shop ex_plain_cart)) ''p2'' ''B'' = Some 2
   \<and> stockOf (products ex_paid_state) ''p1'' ''A'' = Some 3
   \<and> stockOf (products ex_paid_state) ''p2'' ''B'' = Some 1
   \<and> fst (handleSuccessfulPayment ex_env_later ex_collab ex_paid_state ''rzp_order_1'' ''pay_1'' ''sig-ok'')
       = Inr (Some (ex_order_payment\<lparr>p_status := CAPTURED, p_razorpayPaymentId := Some ''pay_1''\<rparr>))
   \<and> stockOf (products ex_confirmed_state) ''p1'' ''A'' = Some 1
   \<and> stockOf (products ex_confirmed_state) ''p2'' ''B'' = Some 0
   \<and> fst (handleSuccessfulPayment ex_env_later ex_collab ex_confirmed_state ''rzp_order_1'' ''pay_1'' ''sig-ok'')
       = Inl (BadRequestError ''Invalid status transition from processing to processing'')
   \<and> stockOf (products (snd (handleSuccessfulPayment ex_env_later ex_collab ex_confirmed_state
                                ''rzp_order_1'' ''pay_1'' ''sig-ok''))) ''p1'' ''A'' = Some 1
   \<and> stockOf (products (snd (handleSuccessfulPayment ex_env_later ex_collab ex_confirmed_state
                                ''rzp_order_1'' ''pay_1'' ''sig-ok''))) ''p2'' ''B'' = Some 0"
  by code_simp

end
